theory Spec2Isabelle
  imports Complex_Main "HOL-Library.Sublist" "HOL-Library.Multiset"
begin

section \<open>JavaScript strings\<close>

text \<open>
  Strings are \<^typ>\<open>string\<close>. \<open>toLowerCase\<close> is modelled on the ASCII letters, which is
  where it acts on the keywords the classifiers look for; other characters are left as they are.
\<close>

definition toLowerCaseChar :: "char \<Rightarrow> char" where
  "toLowerCaseChar c =
     (case map_of (zip ''ABCDEFGHIJKLMNOPQRSTUVWXYZ'' ''abcdefghijklmnopqrstuvwxyz'') c of
        Some l \<Rightarrow> l
      | None \<Rightarrow> c)"

definition toLowerCase :: "string \<Rightarrow> string" where
  "toLowerCase s = map toLowerCaseChar s"

text \<open>\<open>s.includes(t)\<close>: \<open>t\<close> occurs in \<open>s\<close> as a contiguous run of characters.\<close>

fun str_includes :: "string \<Rightarrow> string \<Rightarrow> bool" where
  "str_includes [] t = (t = [])"
| "str_includes (c # cs) t = (prefix t (c # cs) \<or> str_includes cs t)"

text \<open>
  \<open>s.trim()\<close> removes white space and line terminators at both ends. A character here is a
  code unit below 256; of the characters that \<open>trim\<close> removes, these are the space, the
  tab, the line feed, the vertical tab, the form feed, the carriage return and the no-break
  space \<open>U+00A0\<close>.
\<close>

definition isWhiteSpace :: "char \<Rightarrow> bool" where
  "isWhiteSpace c =
     (c \<in> set [CHR '' '', CHR 0x09, CHR 0x0A, CHR 0x0B, CHR 0x0C, CHR 0x0D, CHR 0xA0])"

definition trim :: "string \<Rightarrow> string" where
  "trim s = rev (dropWhile isWhiteSpace (rev (dropWhile isWhiteSpace s)))"

section \<open>Text classifiers\<close>

datatype diet = Vegetarian | NonVegetarian

text \<open>
  \<open>classifyDiet\<close>: \<open>None\<close> as argument is JavaScript's \<open>null\<close>/\<open>undefined\<close>; \<open>None\<close> as
  result is the \<open>null\<close> the source returns for an unknown diet. \<open>!rawDiet\<close> also holds for
  the empty string.
\<close>

definition classifyDiet :: "string option \<Rightarrow> diet option" where
  "classifyDiet rawDiet =
     (case rawDiet of
        None \<Rightarrow> None
      | Some raw \<Rightarrow>
          if raw = [] then None
          else let diet = toLowerCase raw in
            if str_includes diet ''non'' then Some NonVegetarian
            else if str_includes diet ''egg'' then Some NonVegetarian
            else if str_includes diet ''veg'' then Some Vegetarian
            else None)"

text \<open>The keyword lists of the sweetness detector, in the source's order.\<close>

definition SWEET_NAME_KEYWORDS :: "string list" where
  "SWEET_NAME_KEYWORDS =
     [''sweet'', ''halwa'', ''laddu'', ''ladoo'', ''barfi'', ''burfi'', ''kheer'', ''payasam'',
      ''peda'', ''rasgulla'', ''rasmalai'', ''kesari'', ''jalebi'', ''sheera'', ''poli'',
      ''mithai'', ''malpua'', ''gulab jamun'', ''sandesh'', ''shrikhand'', ''ghewar'', ''modak'',
      ''kulfi'', ''puran poli'']"

definition SWEET_INGREDIENT_KEYWORDS :: "string list" where
  "SWEET_INGREDIENT_KEYWORDS =
     [''sugar'', ''jaggery'', ''honey'', ''condensed milk'', ''khoya'', ''mawa'', ''rabdi'',
      ''gud'', ''treacle'', ''molasses'', ''palm jaggery'', ''dates'', ''khoa'']"

text \<open>
  \<open>detectSweetness(name, course, tokens, rawIngredients)\<close>; \<open>course\<close> may be \<open>undefined\<close>
  (\<open>None\<close>), and \<open>course?.toLowerCase() ?? ''\<close> is then the empty string. \<open>xs.some(p)\<close> is
  \<^const>\<open>list_ex\<close>.
\<close>

definition detectSweetness :: "string \<Rightarrow> string option \<Rightarrow> string list \<Rightarrow> string \<Rightarrow> bool" where
  "detectSweetness name course tokens rawIngredients =
     (let courseLower = (case course of None \<Rightarrow> [] | Some c \<Rightarrow> toLowerCase c) in
      if str_includes courseLower ''dessert'' \<or> str_includes courseLower ''sweet'' then True
      else let lowerName = toLowerCase name in
        if list_ex (\<lambda>kw. str_includes lowerName kw) SWEET_NAME_KEYWORDS then True
        else let rawLower = toLowerCase rawIngredients in
          if list_ex (\<lambda>kw. str_includes rawLower kw) SWEET_INGREDIENT_KEYWORDS then True
          else if list_ex (\<lambda>token. list_ex (\<lambda>kw. if str_includes kw '' '' then False
                                                    else str_includes token kw)
                                         SWEET_INGREDIENT_KEYWORDS) tokens then True
          else False)"

definition LENTIL_TERMS :: "string list" where
  "LENTIL_TERMS = [''lentil'', ''dal'', ''toor'', ''masoor'', ''moong'', ''chana'', ''chickpea'',
                   ''arhar'', ''urad'']"

definition RED_MEAT_TERMS :: "string list" where
  "RED_MEAT_TERMS = [''mutton'', ''lamb'', ''pork'', ''beef'', ''yak'']"

definition POULTRY_TERMS :: "string list" where
  "POULTRY_TERMS = [''chicken'', ''duck'']"

definition FISH_TERMS :: "string list" where
  "FISH_TERMS = [''fish'', ''prawn'', ''prawns'', ''shrimp'', ''tuna'', ''pomfret'', ''crab'',
                 ''seafood'']"

definition TURMERIC_TERMS :: "string list" where
  "TURMERIC_TERMS = [''turmeric'', ''haldi'']"

definition NON_VEG_TERMS :: "string list" where
  "NON_VEG_TERMS = [''chicken'', ''mutton'', ''lamb'', ''pork'', ''beef'', ''fish'', ''prawn'',
                    ''prawns'', ''shrimp'', ''egg'', ''eggs'', ''crab'', ''tuna'', ''clam'']"

definition anyMention :: "string list \<Rightarrow> string list \<Rightarrow> bool" where
  "anyMention tokens terms =
     list_ex (\<lambda>token. list_ex (\<lambda>term. str_includes token term) terms) tokens"

section \<open>Object literals and inherited properties\<close>

text \<open>
  \<open>literal[key]\<close> on an object literal finds an own property, or else a member that the
  literal inherits from \<open>Object.prototype\<close> (a function, or for \<open>__proto__\<close> the prototype
  object itself), or else nothing (\<open>undefined\<close>). An inherited member is neither \<open>null\<close> nor
  \<open>undefined\<close>, and it is truthy.
\<close>

definition objectPrototypeKeys :: "string list" where
  "objectPrototypeKeys =
     [''constructor'', ''__defineGetter__'', ''__defineSetter__'', ''hasOwnProperty'',
      ''__lookupGetter__'', ''__lookupSetter__'', ''isPrototypeOf'', ''propertyIsEnumerable'',
      ''toString'', ''valueOf'', ''__proto__'', ''toLocaleString'']"

datatype 'a lookup = Own 'a | Inherited string | Missing

definition getProp :: "(string \<times> 'a) list \<Rightarrow> string \<Rightarrow> 'a lookup" where
  "getProp entries key =
     (case map_of entries key of
        Some v \<Rightarrow> Own v
      | None \<Rightarrow> if key \<in> set objectPrototypeKeys then Inherited key else Missing)"

text \<open>
  The text of an inherited member when it is used as a string (as a property key, as the
  argument of \<open>localeCompare\<close>, in \<open>join\<close>): the source text of a built-in function, and
  \<open>[object Object]\<close> for the prototype object.
\<close>

definition memberText :: "string \<Rightarrow> string" where
  "memberText m =
     (if m = ''__proto__'' then ''[object Object]''
      else ''function '' @ (if m = ''constructor'' then ''Object'' else m) @ ''() { [native code] }'')"

section \<open>Region name normaliser\<close>

definition normMap_entries :: "(string \<times> string) list" where
  "normMap_entries =
     [(''NCT of Delhi'', ''Delhi''),
      (''National Capital Territory of Delhi'', ''Delhi''),
      (''Delhi (NCT)'', ''Delhi''),
      (''Uttaranchal'', ''Uttarakhand''),
      (''Uttar Pradesh'', ''Uttar Pradesh''),
      (''Jammu & Kashmir'', ''Jammu and Kashmir''),
      (''Jammu and Kashmir'', ''Jammu and Kashmir''),
      (''Dadra and Nagar Haveli and Daman and Diu'', ''Dadra and Nagar Haveli and Daman and Diu''),
      (''Dadra and Nagar Haveli'', ''Dadra and Nagar Haveli and Daman and Diu''),
      (''Daman'', ''Dadra and Nagar Haveli and Daman and Diu''),
      (''Daman and Diu'', ''Dadra and Nagar Haveli and Daman and Diu''),
      (''Andaman & Nicobar Islands'', ''Andaman and Nicobar Islands''),
      (''Andaman and Nicobar Islands'', ''Andaman and Nicobar Islands''),
      (''Pondicherry'', ''Puducherry''),
      (''Puducherry'', ''Puducherry''),
      (''Orissa'', ''Odisha''),
      (''Karnataka'', ''Karnataka''),
      (''Tamilnadu'', ''Tamil Nadu''),
      (''Telangana'', ''Telangana''),
      (''Chattisgarh'', ''Chhattisgarh''),
      (''Chhatisgarh'', ''Chhattisgarh''),
      (''Lakshadweep Islands'', ''Lakshadweep''),
      (''Lakshadweep'', ''Lakshadweep''),
      (''Arunachal'', ''Arunachal Pradesh''),
      (''Maharastra'', ''Maharashtra''),
      (''Madhya Pradesh'', ''Madhya Pradesh''),
      (''Ladakh'', ''Ladakh'')]"

text \<open>\<open>normMap[key]\<close>.\<close>

definition normMap :: "string \<Rightarrow> string lookup" where
  "normMap key = getProp normMap_entries key"

text \<open>
  What \<open>norm\<close> returns: a string, or the member of \<open>Object.prototype\<close> that the lookup in
  the alias table found for the trimmed input.
\<close>

datatype region = Name string | Member string

text \<open>A region used as a string.\<close>

fun keyText :: "region \<Rightarrow> string" where
  "keyText (Name s) = s"
| "keyText (Member m) = memberText m"

text \<open>
  \<open>(normMap[trimmed] ?? trimmed) || trimmed\<close>: the empty string is the falsy case of \<open>||\<close>,
  and an inherited member is kept by both operators.
\<close>

definition norm_region :: "string \<Rightarrow> region" where
  "norm_region s =
     (let trimmed = trim s in
      case normMap trimmed of
        Own v \<Rightarrow> if v = [] then Name trimmed else Name v
      | Inherited m \<Rightarrow> Member m
      | Missing \<Rightarrow> Name trimmed)"

definition STATE_POPULATION_2021_entries :: "(string \<times> nat) list" where
  "STATE_POPULATION_2021_entries =
     [(''Andaman and Nicobar Islands'', 419978),
      (''Andhra Pradesh'', 53903393),
      (''Arunachal Pradesh'', 1570458),
      (''Assam'', 35607039),
      (''Bihar'', 127403751),
      (''Chandigarh'', 1184743),
      (''Chhattisgarh'', 29436231),
      (''Dadra and Nagar Haveli and Daman and Diu'', 867846),
      (''Delhi'', 19814000),
      (''Goa'', 1586250),
      (''Gujarat'', 63872399),
      (''Haryana'', 28902198),
      (''Himachal Pradesh'', 7304787),
      (''Jharkhand'', 38471306),
      (''Karnataka'', 67562686),
      (''Kerala'', 35699443),
      (''Madhya Pradesh'', 85358965),
      (''Maharashtra'', 124904071),
      (''Manipur'', 3117011),
      (''Meghalaya'', 3366710),
      (''Mizoram'', 1261231),
      (''Nagaland'', 2249695),
      (''Odisha'', 46356334),
      (''Puducherry'', 1504000),
      (''Punjab'', 30141373),
      (''Rajasthan'', 81032689),
      (''Sikkim'', 690251),
      (''Tamil Nadu'', 77841267),
      (''Telangana'', 37173107),
      (''Tripura'', 4169794),
      (''Uttar Pradesh'', 237882725),
      (''Uttarakhand'', 11250858),
      (''West Bengal'', 100043676),
      (''Jammu and Kashmir'', 13635010),
      (''Ladakh'', 297419),
      (''Lakshadweep'', 73199),
      (''Andaman & Nicobar Islands'', 419978)]"

text \<open>\<open>STATE_POPULATION_2021[key]\<close>.\<close>

definition STATE_POPULATION_2021 :: "string \<Rightarrow> nat lookup" where
  "STATE_POPULATION_2021 key = getProp STATE_POPULATION_2021_entries key"

section \<open>JavaScript numbers\<close>

text \<open>
  A number is a finite value, an infinity or NaN; the two zeros are one value. The operations
  of this section are the exact ones, on reals: they do not round and do not overflow. The
  scatter regression, which compares computed values with zero, takes the rounded operations
  as a parameter instead.
\<close>

datatype jsnum = Fin real | PosInf | NegInf | NaN

fun isFinite :: "jsnum \<Rightarrow> bool" where
  "isFinite (Fin v) = True"
| "isFinite _ = False"

text \<open>\<open>a <= b\<close>: every comparison with NaN is false.\<close>

fun js_le :: "jsnum \<Rightarrow> jsnum \<Rightarrow> bool" where
  "js_le NaN _ = False"
| "js_le _ NaN = False"
| "js_le (Fin a) (Fin b) = (a \<le> b)"
| "js_le NegInf _ = True"
| "js_le _ PosInf = True"
| "js_le _ _ = False"


fun js_div :: "jsnum \<Rightarrow> jsnum \<Rightarrow> jsnum" where
  "js_div NaN _ = NaN"
| "js_div _ NaN = NaN"
| "js_div (Fin a) (Fin b) =
     (if b \<noteq> 0 then Fin (a / b) else if a = 0 then NaN else if 0 < a then PosInf else NegInf)"
| "js_div (Fin a) _ = Fin 0"
| "js_div PosInf (Fin b) = (if 0 \<le> b then PosInf else NegInf)"
| "js_div NegInf (Fin b) = (if 0 \<le> b then NegInf else PosInf)"
| "js_div _ _ = NaN"

fun js_sub :: "jsnum \<Rightarrow> jsnum \<Rightarrow> jsnum" where
  "js_sub NaN _ = NaN"
| "js_sub _ NaN = NaN"
| "js_sub (Fin a) (Fin b) = Fin (a - b)"
| "js_sub (Fin a) PosInf = NegInf"
| "js_sub (Fin a) NegInf = PosInf"
| "js_sub PosInf PosInf = NaN"
| "js_sub PosInf _ = PosInf"
| "js_sub NegInf NegInf = NaN"
| "js_sub NegInf _ = NegInf"

fun js_add :: "jsnum \<Rightarrow> jsnum \<Rightarrow> jsnum" where
  "js_add NaN _ = NaN"
| "js_add _ NaN = NaN"
| "js_add (Fin a) (Fin b) = Fin (a + b)"
| "js_add PosInf NegInf = NaN"
| "js_add NegInf PosInf = NaN"
| "js_add PosInf _ = PosInf"
| "js_add NegInf _ = NegInf"
| "js_add (Fin a) b = b"

fun js_mul :: "jsnum \<Rightarrow> jsnum \<Rightarrow> jsnum" where
  "js_mul NaN _ = NaN"
| "js_mul _ NaN = NaN"
| "js_mul (Fin a) (Fin b) = Fin (a * b)"
| "js_mul (Fin a) PosInf = (if a = 0 then NaN else if 0 < a then PosInf else NegInf)"
| "js_mul (Fin a) NegInf = (if a = 0 then NaN else if 0 < a then NegInf else PosInf)"
| "js_mul PosInf (Fin b) = (if b = 0 then NaN else if 0 < b then PosInf else NegInf)"
| "js_mul NegInf (Fin b) = (if b = 0 then NaN else if 0 < b then NegInf else PosInf)"
| "js_mul PosInf PosInf = PosInf"
| "js_mul NegInf NegInf = PosInf"
| "js_mul _ _ = NegInf"

fun js_sqrt :: "jsnum \<Rightarrow> jsnum" where
  "js_sqrt (Fin a) = (if a < 0 then NaN else Fin (sqrt a))"
| "js_sqrt PosInf = PosInf"
| "js_sqrt _ = NaN"

text \<open>\<open>Math.abs\<close>, which is exact.\<close>

fun js_abs :: "jsnum \<Rightarrow> jsnum" where
  "js_abs (Fin a) = Fin \<bar>a\<bar>"
| "js_abs NaN = NaN"
| "js_abs _ = PosInf"

definition odd_integer :: "real \<Rightarrow> bool" where
  "odd_integer e = (e \<in> \<int> \<and> odd \<lfloor>e\<rfloor>)"

text \<open>\<open>Math.pow(base, exponent)\<close>, by the cases of the language standard's exponentiation.\<close>

definition js_pow :: "jsnum \<Rightarrow> jsnum \<Rightarrow> jsnum" where
  "js_pow base exponent =
     (case exponent of
        NaN \<Rightarrow> NaN
      | Fin e \<Rightarrow>
          if e = 0 then Fin 1
          else (case base of
                  NaN \<Rightarrow> NaN
                | PosInf \<Rightarrow> if 0 < e then PosInf else Fin 0
                | NegInf \<Rightarrow> if 0 < e then (if odd_integer e then NegInf else PosInf) else Fin 0
                | Fin b \<Rightarrow>
                    if b = 0 then (if 0 < e then Fin 0 else PosInf)
                    else if b < 0 \<and> e \<notin> \<int> then NaN
                    else if b < 0 then Fin ((if odd \<lfloor>e\<rfloor> then - 1 else 1) * (\<bar>b\<bar> powr e))
                    else Fin (b powr e))
      | PosInf \<Rightarrow>
          (case base of
             NaN \<Rightarrow> NaN
           | Fin b \<Rightarrow> if 1 < \<bar>b\<bar> then PosInf else if \<bar>b\<bar> = 1 then NaN else Fin 0
           | _ \<Rightarrow> PosInf)
      | NegInf \<Rightarrow>
          (case base of
             NaN \<Rightarrow> NaN
           | Fin b \<Rightarrow> if 1 < \<bar>b\<bar> then Fin 0 else if \<bar>b\<bar> = 1 then NaN else PosInf
           | _ \<Rightarrow> Fin 0))"

section \<open>Growth rate\<close>

text \<open>\<open>cagr(v0, v1, years)\<close>; the result \<open>None\<close> is \<open>null\<close>.\<close>

definition cagr :: "jsnum \<Rightarrow> jsnum \<Rightarrow> jsnum \<Rightarrow> jsnum option" where
  "cagr v0 v1 years =
     (if \<not> isFinite v0 \<or> \<not> isFinite v1 \<or> js_le v0 (Fin 0) \<or> js_le years (Fin 0) then None
      else Some (js_sub (js_pow (js_div v1 v0) (js_div (Fin 1) years)) (Fin 1)))"

section \<open>Arrays and objects\<close>

text \<open>
  \<open>xs.sort(cmp)\<close> is a stable sort by a comparator that returns a number: negative when the
  first argument goes first. The model is insertion sort, which is stable; it is the result
  of \<open>sort\<close> for every comparator that is consistent (a total preorder).
\<close>

fun insert_js :: "('a \<Rightarrow> 'a \<Rightarrow> real) \<Rightarrow> 'a \<Rightarrow> 'a list \<Rightarrow> 'a list" where
  "insert_js cmp v [] = [v]"
| "insert_js cmp v (w # ws) = (if cmp v w \<le> 0 then v # w # ws else w # insert_js cmp v ws)"

fun sort_js :: "('a \<Rightarrow> 'a \<Rightarrow> real) \<Rightarrow> 'a list \<Rightarrow> 'a list" where
  "sort_js cmp [] = []"
| "sort_js cmp (v # vs) = insert_js cmp v (sort_js cmp vs)"

text \<open>\<open>[...new Set(xs)]\<close>: the elements of \<open>xs\<close> in order of first occurrence.\<close>

fun uniq :: "'a list \<Rightarrow> 'a list" where
  "uniq [] = []"
| "uniq (v # vs) = v # filter (\<lambda>w. w \<noteq> v) (uniq vs)"

text \<open>\<open>xs.join(sep)\<close>.\<close>

fun join_str :: "string \<Rightarrow> string list \<Rightarrow> string" where
  "join_str sep [] = []"
| "join_str sep [v] = v"
| "join_str sep (v # w # ws) = v @ sep @ join_str sep (w # ws)"

text \<open>
  An object used as a dictionary (and a \<open>Map\<close>) is an association list with distinct keys,
  in the order in which the keys were created: \<open>obj[k] = v\<close> replaces the value of an
  existing key where it stands and appends a new key at the end.
\<close>

fun assign :: "('k \<times> 'v) list \<Rightarrow> 'k \<Rightarrow> 'v \<Rightarrow> ('k \<times> 'v) list" where
  "assign [] k v = [(k, v)]"
| "assign ((k', v') # kvs) k v = (if k' = k then (k, v) # kvs else (k', v') # assign kvs k v)"

text \<open>
  The own properties of an object in the order in which \<open>Object.keys\<close> and \<open>Object.values\<close>
  list them: first the keys that are array indices (the decimal numeral, without a leading
  zero, of an integer below \<open>2\<^sup>3\<^sup>2 - 1\<close>) in ascending numeric order, then the other keys in
  the order of their creation. A \<open>Map\<close> keeps the order of creation for every key.
\<close>

definition isDigit :: "char \<Rightarrow> bool" where
  "isDigit c = (c \<in> set ''0123456789'')"

definition indexValue :: "string \<Rightarrow> nat" where
  "indexValue k = foldl (\<lambda>n c. 10 * n + (of_char c - 48)) 0 k"

definition isArrayIndex :: "string \<Rightarrow> bool" where
  "isArrayIndex k =
     (k \<noteq> [] \<and> list_all isDigit k \<and> (k = ''0'' \<or> hd k \<noteq> CHR ''0'')
      \<and> indexValue k < 4294967295)"

definition objectEntries :: "(string \<times> 'v) list \<Rightarrow> (string \<times> 'v) list" where
  "objectEntries kvs =
     sort_key (\<lambda>kv. indexValue (fst kv)) (filter (\<lambda>kv. isArrayIndex (fst kv)) kvs)
     @ filter (\<lambda>kv. \<not> isArrayIndex (fst kv)) kvs"

text \<open>
  Sorting rows by their region, \<open>rows.sort((a, b) => a.state.localeCompare(b.state))\<close>. The
  call \<open>a.state.localeCompare\<close> is a \<open>TypeError\<close> when \<open>a.state\<close> is not a string; the argument
  \<open>b.state\<close> is converted to a string. On which pairs the comparator is called is the
  engine's choice. V8 sorts an array of fewer than 64 elements by binary insertion into a
  run: each element but the first is the first argument of a call, and the first element of
  none. So the sort throws (\<open>None\<close>) when an element after the first has a region that is not
  a string, and otherwise sorts by the regions' texts. \<open>localeCompare\<close> is the platform's
  collation of strings; it is a parameter of the model, \<open>localeCompare a b\<close> standing for
  \<open>a.localeCompare(b)\<close>.
\<close>

fun isName :: "region \<Rightarrow> bool" where
  "isName (Name s) = True"
| "isName (Member m) = False"

definition sort_regions :: "(string \<Rightarrow> string \<Rightarrow> real) \<Rightarrow> ('a \<Rightarrow> region) \<Rightarrow> 'a list \<Rightarrow> 'a list option" where
  "sort_regions localeCompare stateOf rows =
     (if list_ex (\<lambda>row. \<not> isName (stateOf row)) (case rows of [] \<Rightarrow> [] | first # rest \<Rightarrow> rest)
      then None
      else Some (sort_js (\<lambda>a b. localeCompare (keyText (stateOf a)) (keyText (stateOf b))) rows))"

section \<open>Incidence aggregation\<close>

text \<open>
  A row of the incidence table. The region cell is the empty string when the column is
  absent. A year's cell is \<open>None\<close> when the column is absent or the cell is the empty
  string, and otherwise the number that \<open>Number(cell)\<close> gives.
\<close>

record CancerRow =
  State_UT :: string
  cell_2019 :: "jsnum option"
  cell_2020 :: "jsnum option"
  cell_2021 :: "jsnum option"
  cell_2022 :: "jsnum option"

definition toNum :: "jsnum option \<Rightarrow> real option" where
  "toNum cell = (case cell of None \<Rightarrow> None | Some n \<Rightarrow> (case n of Fin v \<Rightarrow> Some v | _ \<Rightarrow> None))"

text \<open>
  An incidence record, in the run (\<open>cancer_bucket\<close>: the region is what \<open>norm\<close> returned, the
  population what the table lookup found, a rate any number) and as the page reads it from
  the written document (\<open>cancer_metrics\<close>).
\<close>

record ('r, 'p, 'q) CancerBucket =
  cancer_state :: 'r
  population :: 'p
  incidence_2019 :: "real option"
  incidence_2020 :: "real option"
  incidence_2021 :: "real option"
  incidence_2022 :: "real option"
  incidence_cagr_19_22 :: "jsnum option"
  incidence_per_100k_2019 :: "'q option"
  incidence_per_100k_2020 :: "'q option"
  incidence_per_100k_2021 :: "'q option"
  incidence_per_100k_2022 :: "'q option"

type_synonym cancer_bucket = "(region, nat lookup, jsnum) CancerBucket"

type_synonym cancer_metrics = "(string, nat option, real) CancerBucket"

text \<open>
  \<open>if (v != null) bucket.f += v; else bucket.f = null;\<close> on the field's current value. When
  the field is \<open>null\<close>, \<open>null + v\<close> converts \<open>null\<close> to the number 0.
\<close>

definition accumulate :: "real option \<Rightarrow> real option \<Rightarrow> real option" where
  "accumulate cur v =
     (case v of
        Some a \<Rightarrow> Some ((case cur of None \<Rightarrow> 0 | Some c \<Rightarrow> c) + a)
      | None \<Rightarrow> None)"

text \<open>
  The new bucket of a region; its population is
  \<open>STATE_POPULATION_2021[state] ?? STATE_POPULATION_2021[rawState] ?? null\<close>, with \<open>Missing\<close>
  for \<open>null\<close>.
\<close>

definition newCancerBucket :: "region \<Rightarrow> string \<Rightarrow> cancer_bucket" where
  "newCancerBucket st rawState =
     \<lparr> cancer_state = st,
       population = (case STATE_POPULATION_2021 (keyText st) of
                       Missing \<Rightarrow> STATE_POPULATION_2021 rawState
                     | found \<Rightarrow> found),
       incidence_2019 = Some 0, incidence_2020 = Some 0,
       incidence_2021 = Some 0, incidence_2022 = Some 0,
       incidence_cagr_19_22 = None,
       incidence_per_100k_2019 = None, incidence_per_100k_2020 = None,
       incidence_per_100k_2021 = None, incidence_per_100k_2022 = None \<rparr>"

text \<open>
  The body of the first loop of \<open>main\<close>, for one row. The property key of a region is its
  text. It is never the name of a member of \<open>Object.prototype\<close> (lemma \<open>norm_key_own\<close> below),
  so \<open>cancerByState[state]\<close> is an own property or nothing.
\<close>

definition addCancerRow :: "(string \<times> cancer_bucket) list \<Rightarrow> CancerRow \<Rightarrow> (string \<times> cancer_bucket) list" where
  "addCancerRow cancerByState row =
     (let rawState = trim (State_UT row) in
      if rawState = [] then cancerByState
      else let st = norm_region rawState;
               v2019 = toNum (cell_2019 row); v2020 = toNum (cell_2020 row);
               v2021 = toNum (cell_2021 row); v2022 = toNum (cell_2022 row);
               bucket = (case map_of cancerByState (keyText st) of
                           Some b \<Rightarrow> b
                         | None \<Rightarrow> newCancerBucket st rawState)
           in assign cancerByState (keyText st)
                (bucket\<lparr> incidence_2019 := accumulate (incidence_2019 bucket) v2019,
                         incidence_2020 := accumulate (incidence_2020 bucket) v2020,
                         incidence_2021 := accumulate (incidence_2021 bucket) v2021,
                         incidence_2022 := accumulate (incidence_2022 bucket) v2022 \<rparr>))"

definition accumulateCancer :: "CancerRow list \<Rightarrow> (string \<times> cancer_bucket) list" where
  "accumulateCancer cancerCSV = foldl addCancerRow [] cancerCSV"

text \<open>
  \<open>incidenceValue != null && population ? (incidenceValue / population) * 100_000 : null\<close>.
  An inherited member is truthy, and as a number it is NaN.
\<close>

definition per100k :: "real option \<Rightarrow> nat lookup \<Rightarrow> jsnum option" where
  "per100k incidenceValue pop =
     (case (incidenceValue, pop) of
        (Some v, Own p) \<Rightarrow> if p \<noteq> 0 then Some (Fin (v / real p * 100000)) else None
      | (Some v, Inherited m) \<Rightarrow> Some NaN
      | _ \<Rightarrow> None)"

text \<open>The body of the second loop: the growth rate and the four rates of one bucket.\<close>

definition deriveCancerMetrics :: "cancer_bucket \<Rightarrow> cancer_bucket" where
  "deriveCancerMetrics bucket =
     bucket\<lparr> incidence_cagr_19_22 :=
               (case (incidence_2019 bucket, incidence_2022 bucket) of
                  (Some v2019, Some v2022) \<Rightarrow> cagr (Fin v2019) (Fin v2022) (Fin 3)
                | _ \<Rightarrow> None),
             incidence_per_100k_2019 := per100k (incidence_2019 bucket) (population bucket),
             incidence_per_100k_2020 := per100k (incidence_2020 bucket) (population bucket),
             incidence_per_100k_2021 := per100k (incidence_2021 bucket) (population bucket),
             incidence_per_100k_2022 := per100k (incidence_2022 bucket) (population bucket) \<rparr>"

definition deriveAll :: "(string \<times> cancer_bucket) list \<Rightarrow> (string \<times> cancer_bucket) list" where
  "deriveAll cancerByState = map (\<lambda>(k, bucket). (k, deriveCancerMetrics bucket)) cancerByState"

text \<open>\<open>Object.values(cancerByState).sort((a, b) => a.state.localeCompare(b.state))\<close>.\<close>

definition cancerRowsOf :: "(string \<Rightarrow> string \<Rightarrow> real) \<Rightarrow> (string \<times> cancer_bucket) list \<Rightarrow> cancer_bucket list option" where
  "cancerRowsOf localeCompare cancerByState =
     sort_regions localeCompare cancer_state (map snd (objectEntries cancerByState))"

text \<open>The regions of the rows whose population is \<open>null\<close>.\<close>

definition missingPopulation :: "cancer_bucket list \<Rightarrow> region list" where
  "missingPopulation cancerRows =
     map cancer_state (filter (\<lambda>row. population row = Missing) cancerRows)"

section \<open>Per-region cuisine aggregator\<close>

record Details =
  details_diet :: "diet option"
  details_sweet :: bool
  details_prep :: "real option"
  details_cook :: "real option"
  details_tokens :: "string list"

record CuisineBucket =
  acc_state :: region
  acc_dish_count :: nat
  veg :: nat
  sweet :: nat
  prep_sum :: real
  prep_n :: nat
  cook_sum :: real
  cook_n :: nat
  lentil_like :: nat
  red_meat_like :: nat
  poultry :: nat
  fish :: nat
  turmeric :: nat
  acc_ingredient_stats :: "(string \<times> nat) list"

definition newCuisineBucket :: "region \<Rightarrow> CuisineBucket" where
  "newCuisineBucket st =
     \<lparr> acc_state = st, acc_dish_count = 0, veg = 0, sweet = 0, prep_sum = 0, prep_n = 0,
       cook_sum = 0, cook_n = 0, lentil_like = 0, red_meat_like = 0, poultry = 0, fish = 0,
       turmeric = 0, acc_ingredient_stats = [] \<rparr>"

text \<open>\<open>stats.set(token, (stats.get(token) ?? 0) + 1)\<close>.\<close>

definition countToken :: "(string \<times> nat) list \<Rightarrow> string \<Rightarrow> (string \<times> nat) list" where
  "countToken stats token =
     assign stats token ((case map_of stats token of None \<Rightarrow> 0 | Some prev \<Rightarrow> prev) + 1)"

text \<open>The block guarded by \<open>details.tokens.length\<close>.\<close>

definition addTokens :: "string list \<Rightarrow> CuisineBucket \<Rightarrow> CuisineBucket" where
  "addTokens toks bucket =
     (if length toks = 0 then bucket
      else let uniqueTokens = uniq toks in
        bucket\<lparr> lentil_like := lentil_like bucket + (if anyMention uniqueTokens LENTIL_TERMS then 1 else 0),
                red_meat_like := red_meat_like bucket + (if anyMention uniqueTokens RED_MEAT_TERMS then 1 else 0),
                poultry := poultry bucket + (if anyMention uniqueTokens POULTRY_TERMS then 1 else 0),
                fish := fish bucket + (if anyMention uniqueTokens FISH_TERMS then 1 else 0),
                turmeric := turmeric bucket + (if anyMention uniqueTokens TURMERIC_TERMS then 1 else 0),
                acc_ingredient_stats := foldl countToken (acc_ingredient_stats bucket) uniqueTokens \<rparr>)"

text \<open>The updates of one observation on its region's bucket.\<close>

definition addToBucket :: "Details \<Rightarrow> CuisineBucket \<Rightarrow> CuisineBucket" where
  "addToBucket details bucket =
     (let hasAnimalProtein =
            list_ex (\<lambda>token. list_ex (\<lambda>term. str_includes token term) NON_VEG_TERMS)
              (details_tokens details);
          isVegetarian = (details_diet details = Some Vegetarian \<and> \<not> hasAnimalProtein);
          b1 = bucket\<lparr> acc_dish_count := acc_dish_count bucket + 1 \<rparr>;
          b2 = (if isVegetarian then b1\<lparr> veg := veg b1 + 1 \<rparr> else b1);
          b3 = (if details_sweet details then b2\<lparr> sweet := sweet b2 + 1 \<rparr> else b2);
          b4 = (case details_prep details of
                  Some p \<Rightarrow> b3\<lparr> prep_sum := prep_sum b3 + p, prep_n := prep_n b3 + 1 \<rparr>
                | None \<Rightarrow> b3);
          b5 = (case details_cook details of
                  Some c \<Rightarrow> b4\<lparr> cook_sum := cook_sum b4 + c, cook_n := cook_n b4 + 1 \<rparr>
                | None \<Rightarrow> b4)
      in addTokens (details_tokens details) b5)"

text \<open>
  \<open>if (!state || state === '-1') return;\<close> leaves on the empty string and on \<open>-1\<close>. As in
  the incidence loop, the property key is the region's text and never an inherited name.
\<close>

definition addObservation :: "(string \<times> CuisineBucket) list \<Rightarrow> string \<Rightarrow> Details \<Rightarrow> (string \<times> CuisineBucket) list" where
  "addObservation cuisineAcc stateRaw details =
     (let st = norm_region stateRaw in
      if st = Name [] \<or> st = Name ''-1'' then cuisineAcc
      else let bucket = (case map_of cuisineAcc (keyText st) of
                           Some b \<Rightarrow> b
                         | None \<Rightarrow> newCuisineBucket st)
           in assign cuisineAcc (keyText st) (addToBucket details bucket))"

text \<open>
  The three ingestion loops of \<open>main\<close> classify their rows and call \<open>addObservation\<close>; the
  aggregator is driven here by the list of those calls, in order.
\<close>

definition accumulateCuisine :: "(string \<times> Details) list \<Rightarrow> (string \<times> CuisineBucket) list" where
  "accumulateCuisine observations =
     foldl (\<lambda>cuisineAcc (stateRaw, details). addObservation cuisineAcc stateRaw details) [] observations"

text \<open>
  A cuisine summary row, in the run (\<open>cuisine_row\<close>) and as the page reads it from the written
  document (\<open>cuisine_metrics\<close>).
\<close>

record 'r CuisineRow =
  state :: 'r
  dish_count :: nat
  pct_veg :: "real option"
  pct_sweet :: "real option"
  avg_prep_time :: "real option"
  avg_cook_time :: "real option"
  pct_lentil_like :: "real option"
  pct_red_meat_like :: "real option"
  pct_poultry :: "real option"
  pct_fish :: "real option"
  pct_turmeric :: "real option"
  ingredient_stats :: "(string \<times> nat) list"

text \<open>\<open>d ? n / d : null\<close> for a count \<open>d\<close>.\<close>

type_synonym cuisine_row = "region CuisineRow"

type_synonym cuisine_metrics = "string CuisineRow"

definition ratio :: "real \<Rightarrow> nat \<Rightarrow> real option" where
  "ratio n d = (if d \<noteq> 0 then Some (n / real d) else None)"

definition summarise :: "(string \<Rightarrow> string \<Rightarrow> real) \<Rightarrow> CuisineBucket \<Rightarrow> cuisine_row" where
  "summarise localeCompare bucket =
     \<lparr> state = acc_state bucket,
       dish_count = acc_dish_count bucket,
       pct_veg = ratio (real (veg bucket)) (acc_dish_count bucket),
       pct_sweet = ratio (real (sweet bucket)) (acc_dish_count bucket),
       avg_prep_time = ratio (prep_sum bucket) (prep_n bucket),
       avg_cook_time = ratio (cook_sum bucket) (cook_n bucket),
       pct_lentil_like = ratio (real (lentil_like bucket)) (acc_dish_count bucket),
       pct_red_meat_like = ratio (real (red_meat_like bucket)) (acc_dish_count bucket),
       pct_poultry = ratio (real (poultry bucket)) (acc_dish_count bucket),
       pct_fish = ratio (real (fish bucket)) (acc_dish_count bucket),
       pct_turmeric = ratio (real (turmeric bucket)) (acc_dish_count bucket),
       ingredient_stats =
         sort_js (\<lambda>a b. if real (snd b) - real (snd a) \<noteq> 0 then real (snd b) - real (snd a)
                         else localeCompare (fst a) (fst b))
           (acc_ingredient_stats bucket) \<rparr>"

definition cuisineRowsOf :: "(string \<Rightarrow> string \<Rightarrow> real) \<Rightarrow> (string \<times> CuisineBucket) list \<Rightarrow> cuisine_row list option" where
  "cuisineRowsOf localeCompare cuisineAcc =
     sort_regions localeCompare state
       (map (\<lambda>(k, bucket). summarise localeCompare bucket) (objectEntries cuisineAcc))"

section \<open>Join and output\<close>

text \<open>
  A joined record, in the run (\<open>joined_row\<close>: \<open>cancerByState[state] ?? null\<close> is a bucket, an
  inherited member or \<open>null\<close>) and as the page reads it from the written document
  (\<open>joined_metrics\<close>).
\<close>

record ('r, 'c) JoinedRow =
  joined_state :: 'r
  joined_cancer :: 'c
  joined_cuisine :: "'r CuisineRow option"

type_synonym joined_row = "(region, cancer_bucket lookup) JoinedRow"

type_synonym joined_metrics = "(string, cancer_metrics option) JoinedRow"

text \<open>\<open>new Map(cuisineRows.map((row) => [row.state, row]))\<close>: a later row replaces an earlier one.\<close>

definition cuisineByStateOf :: "'r CuisineRow list \<Rightarrow> ('r \<times> 'r CuisineRow) list" where
  "cuisineByStateOf cuisineRows = foldl (\<lambda>m row. assign m (state row) row) [] cuisineRows"

text \<open>
  The join. The set of states holds the keys of the incidence object, which are strings, and
  the regions of the cuisine rows; its sort is \<open>[...allStates].sort((a, b) => a.localeCompare(b))\<close>.
\<close>

definition joinRows :: "(string \<Rightarrow> string \<Rightarrow> real) \<Rightarrow> (string \<times> cancer_bucket) list \<Rightarrow> cuisine_row list \<Rightarrow> joined_row list option" where
  "joinRows localeCompare cancerByState cuisineRows =
     (let cuisineByState = cuisineByStateOf cuisineRows;
          allStates = uniq (map (\<lambda>k. Name k) (map fst (objectEntries cancerByState))
                            @ map state cuisineRows)
      in map_option
           (map (\<lambda>st. \<lparr> joined_state = st,
                         joined_cancer = getProp cancerByState (keyText st),
                         joined_cuisine = map_of cuisineByState st \<rparr>))
           (sort_regions localeCompare (\<lambda>st. st) allStates))"

text \<open>
  A run of \<open>main\<close>: the documents written with \<open>fs.writeFileSync\<close>, in order, and the
  error thrown, if any. The size of a written file is a parameter.
\<close>

datatype document =
  CancerDoc "cancer_bucket list"
| CuisineDoc "cuisine_row list"
| JoinedDoc "joined_row list"

datatype error = Error string | TypeError | TooLarge document nat

fun sizeGuard :: "(document \<Rightarrow> nat) \<Rightarrow> document list \<Rightarrow> error option" where
  "sizeGuard fileSize [] = None"
| "sizeGuard fileSize (d # ds) =
     (if 1000000 < fileSize d then Some (TooLarge d (fileSize d)) else sizeGuard fileSize ds)"

definition main :: "(string \<Rightarrow> string \<Rightarrow> real) \<Rightarrow> (document \<Rightarrow> nat) \<Rightarrow> CancerRow list \<Rightarrow> (string \<times> Details) list \<Rightarrow> document list \<times> error option" where
  "main localeCompare fileSize cancerCSV observations =
     (let cancerByState = deriveAll (accumulateCancer cancerCSV) in
      case cancerRowsOf localeCompare cancerByState of
        None \<Rightarrow> ([], Some TypeError)
      | Some cancerRows \<Rightarrow>
          let missing = missingPopulation cancerRows in
          if length missing \<noteq> 0
          then ([], Some (Error (''Missing population for states: ''
                                  @ join_str '', '' (map keyText missing))))
          else (case cuisineRowsOf localeCompare (accumulateCuisine observations) of
                  None \<Rightarrow> ([CancerDoc cancerRows], Some TypeError)
                | Some cuisineRows \<Rightarrow>
                    (case joinRows localeCompare cancerByState cuisineRows of
                       None \<Rightarrow> ([CancerDoc cancerRows, CuisineDoc cuisineRows], Some TypeError)
                     | Some joinedRows \<Rightarrow>
                         let docs = [CancerDoc cancerRows, CuisineDoc cuisineRows,
                                     JoinedDoc joinedRows]
                         in (docs, sizeGuard fileSize docs))))"

section \<open>Scatter regression\<close>

record ScatterPoint =
  point_state :: string
  px :: jsnum
  py :: jsnum

record 'n Residual =
  res_state :: string
  actual :: 'n
  predicted :: 'n
  residual :: 'n

record 'n ScatterMetrics =
  slope :: 'n
  intercept :: 'n
  pearson_r :: 'n
  residuals :: "'n Residual list"

text \<open>
  The arithmetic of the platform on numbers: rounded addition, subtraction, multiplication
  and division, \<open>Math.pow\<close> and \<open>Math.sqrt\<close>. It is a parameter of the model, so that nothing
  is assumed of how the operations round, overflow or underflow. The two zeros are one
  value: the sign of a zero decides a result only where the zero is a divisor, and the one
  divisor of the regression that can be zero is a square root, which is not the negative
  zero.
\<close>

record float_ops =
  f_add :: "jsnum \<Rightarrow> jsnum \<Rightarrow> jsnum"
  f_sub :: "jsnum \<Rightarrow> jsnum \<Rightarrow> jsnum"
  f_mul :: "jsnum \<Rightarrow> jsnum \<Rightarrow> jsnum"
  f_div :: "jsnum \<Rightarrow> jsnum \<Rightarrow> jsnum"
  f_pow :: "jsnum \<Rightarrow> jsnum \<Rightarrow> jsnum"
  f_sqrt :: "jsnum \<Rightarrow> jsnum"

text \<open>
  \<open>d3.mean(values)\<close> of the library: it adds the values that are numbers (not NaN) to a sum
  that starts at 0, in order, and returns the sum divided by their count, or \<open>undefined\<close>
  when it counted none. \<open>?? 0\<close> replaces \<open>undefined\<close> by 0.
\<close>

definition d3_mean :: "float_ops \<Rightarrow> jsnum list \<Rightarrow> jsnum option" where
  "d3_mean ops vs =
     (let counted = filter (\<lambda>v. v \<noteq> NaN) vs in
      if length counted = 0 then None
      else Some (f_div ops (foldl (f_add ops) (Fin 0) counted) (Fin (real (length counted)))))"

definition orZero :: "jsnum option \<Rightarrow> jsnum" where
  "orZero v = (case v of None \<Rightarrow> Fin 0 | Some a \<Rightarrow> a)"

text \<open>
  The number that \<open>sort\<close> takes from the result of a comparator: NaN counts as 0, and of an
  infinity only the sign matters.
\<close>

fun sortOrder :: "jsnum \<Rightarrow> real" where
  "sortOrder (Fin v) = v"
| "sortOrder PosInf = 1"
| "sortOrder NegInf = - 1"
| "sortOrder NaN = 0"

text \<open>Lines 97 to 131 of \<open>renderScatter\<close>, on the samples that passed the filter.\<close>

definition regression :: "float_ops \<Rightarrow> ScatterPoint list \<Rightarrow> jsnum ScatterMetrics" where
  "regression ops valid =
     (let meanX = orZero (d3_mean ops (map px valid));
          meanY = orZero (d3_mean ops (map py valid));
          varianceX = orZero (d3_mean ops
                        (map (\<lambda>d. f_pow ops (f_sub ops (px d) meanX) (Fin 2)) valid));
          varianceY = orZero (d3_mean ops
                        (map (\<lambda>d. f_pow ops (f_sub ops (py d) meanY) (Fin 2)) valid));
          covariance = orZero (d3_mean ops
                         (map (\<lambda>d. f_mul ops (f_sub ops (px d) meanX) (f_sub ops (py d) meanY))
                            valid));
          slp = (if varianceX = Fin 0 then Fin 0 else f_div ops covariance varianceX);
          icp = f_sub ops meanY (f_mul ops slp meanX);
          rho = (if varianceX = Fin 0 \<or> varianceY = Fin 0 then Fin 0
                 else f_div ops covariance (f_sqrt ops (f_mul ops varianceX varianceY)));
          res = map (\<lambda>d. \<lparr> res_state = point_state d, actual = py d,
                              predicted = f_add ops (f_mul ops slp (px d)) icp,
                              residual = f_sub ops (py d) (f_add ops (f_mul ops slp (px d)) icp) \<rparr>)
                  valid
      in \<lparr> slope = slp, intercept = icp, pearson_r = rho,
           residuals =
             sort_js (\<lambda>a b. sortOrder (f_sub ops (js_abs (residual b)) (js_abs (residual a))))
               res \<rparr>)"

text \<open>\<open>renderScatter\<close> without its drawing: the value it returns (\<open>None\<close> is \<open>null\<close>).\<close>

definition renderScatter :: "float_ops \<Rightarrow> ScatterPoint list \<Rightarrow> jsnum ScatterMetrics option" where
  "renderScatter ops data =
     (let valid = filter (\<lambda>d. isFinite (px d) \<and> isFinite (py d)) data in
      if length valid = 0 then None else Some (regression ops valid))"

text \<open>
  The statistics as the specification words them, in the arithmetic of the platform: the
  mean is the sum divided by the number of values, the variance the mean of the squared
  deviations from the mean, the covariance the mean of the products of the deviations.
\<close>

definition spec_mean :: "float_ops \<Rightarrow> jsnum list \<Rightarrow> jsnum" where
  "spec_mean ops vs = f_div ops (foldl (f_add ops) (Fin 0) vs) (Fin (real (length vs)))"

definition squared_deviations :: "float_ops \<Rightarrow> jsnum list \<Rightarrow> jsnum list" where
  "squared_deviations ops vs = map (\<lambda>v. f_pow ops (f_sub ops v (spec_mean ops vs)) (Fin 2)) vs"

definition deviation_products :: "float_ops \<Rightarrow> (jsnum \<times> jsnum) list \<Rightarrow> jsnum list" where
  "deviation_products ops ps =
     map (\<lambda>(a, b). f_mul ops (f_sub ops a (spec_mean ops (map fst ps)))
                              (f_sub ops b (spec_mean ops (map snd ps)))) ps"

definition spec_variance :: "float_ops \<Rightarrow> jsnum list \<Rightarrow> jsnum" where
  "spec_variance ops vs = spec_mean ops (squared_deviations ops vs)"

definition spec_covariance :: "float_ops \<Rightarrow> (jsnum \<times> jsnum) list \<Rightarrow> jsnum" where
  "spec_covariance ops ps = spec_mean ops (deviation_products ops ps)"

text \<open>The samples with both coordinates finite, as pairs.\<close>

definition finite_samples :: "ScatterPoint list \<Rightarrow> (jsnum \<times> jsnum) list" where
  "finite_samples data =
     map (\<lambda>d. (px d, py d)) (filter (\<lambda>d. isFinite (px d) \<and> isFinite (py d)) data)"

text \<open>
  An arithmetic for the examples: the exact result of each operation, replaced by an infinity
  when its magnitude is \<open>2\<^sup>1\<^sup>0\<^sup>2\<^sup>4\<close> or more. On an operation whose exact result is a
  double, or overflows in this way, it returns what the arithmetic of doubles returns.
\<close>

definition overflow :: "jsnum \<Rightarrow> jsnum" where
  "overflow v =
     (case v of
        Fin a \<Rightarrow> if 2 ^ 1024 \<le> a then PosInf else if a \<le> - (2 ^ 1024) then NegInf else Fin a
      | _ \<Rightarrow> v)"

definition range_ops :: float_ops where
  "range_ops = \<lparr> f_add = (\<lambda>a b. overflow (js_add a b)), f_sub = (\<lambda>a b. overflow (js_sub a b)),
                 f_mul = (\<lambda>a b. overflow (js_mul a b)), f_div = (\<lambda>a b. overflow (js_div a b)),
                 f_pow = (\<lambda>a b. overflow (js_pow a b)), f_sqrt = js_sqrt \<rparr>"

section \<open>Correlation search\<close>

text \<open>
  Modelled from the spec: \<open>computeScatter\<close> is imported from the scatter module, whose
  version under the sources only has \<open>renderScatter\<close>. It is the specification's \<open>fit\<close>, in
  the specification's words and numbers (reals): null without a sample that is finite in both
  coordinates; otherwise the means, variances and covariance of the finite samples (dividing
  by their number), slope = covariance / variance(x) (0 if variance(x) is 0),
  intercept = meanY - slope * meanX, r = covariance / sqrt(varX * varY) (0 if either variance
  is 0), and the residuals \<open>y - (slope * x + intercept)\<close> by descending absolute value.
\<close>

definition finitePoint :: "ScatterPoint \<Rightarrow> (string \<times> real \<times> real) option" where
  "finitePoint d =
     (case (px d, py d) of
        (Fin a, Fin b) \<Rightarrow> Some (point_state d, a, b)
      | _ \<Rightarrow> None)"

definition mean_of :: "real list \<Rightarrow> real" where
  "mean_of vs = sum_list vs / real (length vs)"

definition spec_fit :: "(string \<times> real \<times> real) list \<Rightarrow> real ScatterMetrics" where
  "spec_fit valid =
     (let meanX = mean_of (map (\<lambda>(s, a, b). a) valid);
          meanY = mean_of (map (\<lambda>(s, a, b). b) valid);
          varianceX = mean_of (map (\<lambda>(s, a, b). (a - meanX) ^ 2) valid);
          varianceY = mean_of (map (\<lambda>(s, a, b). (b - meanY) ^ 2) valid);
          covariance = mean_of (map (\<lambda>(s, a, b). (a - meanX) * (b - meanY)) valid);
          slp = (if varianceX = 0 then 0 else covariance / varianceX);
          icp = meanY - slp * meanX;
          rho = (if varianceX = 0 \<or> varianceY = 0 then 0
                 else covariance / sqrt (varianceX * varianceY));
          res = map (\<lambda>(s, a, b). \<lparr> res_state = s, actual = b, predicted = slp * a + icp,
                                     residual = b - (slp * a + icp) \<rparr>) valid
      in \<lparr> slope = slp, intercept = icp, pearson_r = rho,
           residuals = sort_js (\<lambda>a b. \<bar>residual b\<bar> - \<bar>residual a\<bar>) res \<rparr>)"

definition computeScatter :: "ScatterPoint list \<Rightarrow> real ScatterMetrics option" where
  "computeScatter points =
     (let valid = List.map_filter finitePoint points in
      if length valid = 0 then None else Some (spec_fit valid))"

datatype cuisine_key =
  K_pct_veg | K_pct_sweet | K_pct_lentil_like | K_pct_red_meat_like | K_pct_poultry
| K_pct_fish | K_pct_turmeric | K_avg_prep_time | K_avg_cook_time | K_dish_count

definition cuisineMetrics :: "cuisine_key list" where
  "cuisineMetrics =
     [K_pct_veg, K_pct_sweet, K_pct_lentil_like, K_pct_red_meat_like, K_pct_poultry,
      K_pct_fish, K_pct_turmeric, K_avg_prep_time, K_avg_cook_time, K_dish_count]"

datatype cancer_key =
  K_incidence_per_100k_2019 | K_incidence_per_100k_2020 | K_incidence_per_100k_2021
| K_incidence_per_100k_2022 | K_incidence_2019 | K_incidence_2020 | K_incidence_2021
| K_incidence_2022 | K_incidence_cagr_19_22

definition cancerMetrics :: "cancer_key list" where
  "cancerMetrics =
     [K_incidence_per_100k_2019, K_incidence_per_100k_2020, K_incidence_per_100k_2021,
      K_incidence_per_100k_2022, K_incidence_2019, K_incidence_2020, K_incidence_2021,
      K_incidence_2022, K_incidence_cagr_19_22]"

record IngredientInfo =
  info_name :: string
  displayName :: string
  info_states :: "(string \<times> real) list"
  averageShare :: real
  stateCount :: nat

datatype CuisineSelection = Preset cuisine_key | Ingredient IngredientInfo

record ComboSuggestion =
  combo_cuisine :: CuisineSelection
  combo_cancer :: cancer_key
  combo_r :: real
  combo_sample :: nat

text \<open>\<open>row[key]\<close> of a cuisine row read from the written document.\<close>

fun cuisineField :: "cuisine_metrics \<Rightarrow> cuisine_key \<Rightarrow> real option" where
  "cuisineField row K_pct_veg = pct_veg row"
| "cuisineField row K_pct_sweet = pct_sweet row"
| "cuisineField row K_pct_lentil_like = pct_lentil_like row"
| "cuisineField row K_pct_red_meat_like = pct_red_meat_like row"
| "cuisineField row K_pct_poultry = pct_poultry row"
| "cuisineField row K_pct_fish = pct_fish row"
| "cuisineField row K_pct_turmeric = pct_turmeric row"
| "cuisineField row K_avg_prep_time = avg_prep_time row"
| "cuisineField row K_avg_cook_time = avg_cook_time row"
| "cuisineField row K_dish_count = Some (real (dish_count row))"

text \<open>
  \<open>entry.cancer?.[key]\<close>. The growth rate is read back from JSON, which has \<open>null\<close> for NaN
  and the infinities.
\<close>

fun cancerField :: "cancer_metrics \<Rightarrow> cancer_key \<Rightarrow> real option" where
  "cancerField c K_incidence_per_100k_2019 = incidence_per_100k_2019 c"
| "cancerField c K_incidence_per_100k_2020 = incidence_per_100k_2020 c"
| "cancerField c K_incidence_per_100k_2021 = incidence_per_100k_2021 c"
| "cancerField c K_incidence_per_100k_2022 = incidence_per_100k_2022 c"
| "cancerField c K_incidence_2019 = incidence_2019 c"
| "cancerField c K_incidence_2020 = incidence_2020 c"
| "cancerField c K_incidence_2021 = incidence_2021 c"
| "cancerField c K_incidence_2022 = incidence_2022 c"
| "cancerField c K_incidence_cagr_19_22 =
     (case incidence_cagr_19_22 c of Some (Fin v) \<Rightarrow> Some v | _ \<Rightarrow> None)"

definition getCancerValue :: "cancer_metrics option \<Rightarrow> cancer_key \<Rightarrow> real option" where
  "getCancerValue c key = (case c of None \<Rightarrow> None | Some b \<Rightarrow> cancerField b key)"

text \<open>\<open>getCuisineValue(row, selection)\<close>, with the map of ingredient shares per region.\<close>

definition getCuisineValue :: "(string \<rightharpoonup> (string \<rightharpoonup> real)) \<Rightarrow> cuisine_metrics option \<Rightarrow> CuisineSelection \<Rightarrow> real option" where
  "getCuisineValue stateIngredientShares row selection =
     (case row of
        None \<Rightarrow> None
      | Some r \<Rightarrow>
          (case selection of
             Preset key \<Rightarrow> cuisineField r key
           | Ingredient ingredient \<Rightarrow>
               if dish_count r = 0 then None
               else (case stateIngredientShares (state r) of
                       None \<Rightarrow> Some 0
                     | Some shareMap \<Rightarrow>
                         (case shareMap (info_name ingredient) of
                            None \<Rightarrow> Some 0
                          | Some share \<Rightarrow> Some share))))"

text \<open>The innermost loop: the points of one pair of metrics over the joined records.\<close>

definition comboPoints :: "(string \<rightharpoonup> (string \<rightharpoonup> real)) \<Rightarrow> joined_metrics list \<Rightarrow> CuisineSelection \<Rightarrow> cancer_key \<Rightarrow> ScatterPoint list" where
  "comboPoints stateIngredientShares joined cuisineCandidate cancerMetric =
     List.map_filter
       (\<lambda>entry.
          case (getCuisineValue stateIngredientShares (joined_cuisine entry) cuisineCandidate,
                getCancerValue (joined_cancer entry) cancerMetric) of
            (Some cuisineValue, Some cancerValue) \<Rightarrow>
              Some \<lparr> point_state = joined_state entry, px = Fin cuisineValue, py = Fin cancerValue \<rparr>
          | _ \<Rightarrow> None)
       joined"

text \<open>The body of the two outer loops: the combos pushed for one pair, none or one.\<close>

definition comboFor :: "(string \<rightharpoonup> (string \<rightharpoonup> real)) \<Rightarrow> joined_metrics list \<Rightarrow> CuisineSelection \<Rightarrow> cancer_key \<Rightarrow> ComboSuggestion list" where
  "comboFor stateIngredientShares joined cuisineCandidate cancerMetric =
     (let points = comboPoints stateIngredientShares joined cuisineCandidate cancerMetric in
      if length points < 6 then []
      else (case computeScatter points of
              None \<Rightarrow> []
            | Some computation \<Rightarrow>
                [\<lparr> combo_cuisine = cuisineCandidate, combo_cancer = cancerMetric,
                   combo_r = pearson_r computation, combo_sample = length points \<rparr>]))"

definition cuisineCandidatesOf :: "IngredientInfo list \<Rightarrow> CuisineSelection list" where
  "cuisineCandidatesOf ingredientInfos =
     (let ingredientCandidates = take 60 (filter (\<lambda>info. 6 \<le> stateCount info) ingredientInfos)
      in map Preset cuisineMetrics @ map Ingredient ingredientCandidates)"

text \<open>The list \<open>combos\<close> when both loops are done, before it is sorted.\<close>

definition surveyCombos :: "IngredientInfo list \<Rightarrow> (string \<rightharpoonup> (string \<rightharpoonup> real)) \<Rightarrow> joined_metrics list \<Rightarrow> ComboSuggestion list" where
  "surveyCombos ingredientInfos stateIngredientShares joined =
     concat (map (\<lambda>cuisineCandidate.
                    concat (map (\<lambda>cancerMetric.
                                   comboFor stateIngredientShares joined cuisineCandidate cancerMetric)
                              cancerMetrics))
               (cuisineCandidatesOf ingredientInfos))"

definition computeInterestingCombos :: "IngredientInfo list \<Rightarrow> (string \<rightharpoonup> (string \<rightharpoonup> real)) \<Rightarrow> joined_metrics list \<Rightarrow> ComboSuggestion list" where
  "computeInterestingCombos ingredientInfos stateIngredientShares joined =
     take 18 (sort_js (\<lambda>a b. \<bar>combo_r b\<bar> - \<bar>combo_r a\<bar>)
                (surveyCombos ingredientInfos stateIngredientShares joined))"

section \<open>Predicates on buckets and summaries\<close>

text \<open>Every category count of a bucket is at most its dish count.\<close>

definition counts_bounded :: "CuisineBucket \<Rightarrow> bool" where
  "counts_bounded b =
     (veg b \<le> acc_dish_count b \<and> sweet b \<le> acc_dish_count b
      \<and> lentil_like b \<le> acc_dish_count b \<and> red_meat_like b \<le> acc_dish_count b
      \<and> poultry b \<le> acc_dish_count b \<and> fish b \<le> acc_dish_count b
      \<and> turmeric b \<le> acc_dish_count b)"

text \<open>A share that is present (not \<open>null\<close>) and lies in the closed unit interval.\<close>

definition unit_share :: "real option \<Rightarrow> bool" where
  "unit_share v = (case v of None \<Rightarrow> False | Some p \<Rightarrow> 0 \<le> p \<and> p \<le> 1)"

definition shares_ok :: "'r CuisineRow \<Rightarrow> bool" where
  "shares_ok row =
     (unit_share (pct_veg row) \<and> unit_share (pct_sweet row) \<and> unit_share (pct_lentil_like row)
      \<and> unit_share (pct_red_meat_like row) \<and> unit_share (pct_poultry row)
      \<and> unit_share (pct_fish row) \<and> unit_share (pct_turmeric row))"

text \<open>A bucket stored under its own region key, with at least one dish and bounded counts.\<close>

definition bucket_ok :: "string \<times> CuisineBucket \<Rightarrow> bool" where
  "bucket_ok kb =
     (keyText (acc_state (snd kb)) = fst kb \<and> 1 \<le> acc_dish_count (snd kb)
      \<and> counts_bounded (snd kb))"

section \<open>Example inputs\<close>

text \<open>A comparator by character codes, as an instance of a collation.\<close>

fun compareStrings :: "string \<Rightarrow> string \<Rightarrow> real" where
  "compareStrings [] [] = 0"
| "compareStrings [] (b # bs) = - 1"
| "compareStrings (a # as) [] = 1"
| "compareStrings (a # as) (b # bs) =
     (if a = b then compareStrings as bs
      else if (of_char a :: nat) < of_char b then - 1 else 1)"

text \<open>Two incidence rows whose region names are aliases of one region.\<close>

definition row_missing_2019 :: CancerRow where
  "row_missing_2019 = \<lparr> State_UT = ''Daman'', cell_2019 = None, cell_2020 = Some (Fin 1),
                         cell_2021 = Some (Fin 1), cell_2022 = Some (Fin 1) \<rparr>"

definition row_present_2019 :: CancerRow where
  "row_present_2019 = \<lparr> State_UT = ''Dadra and Nagar Haveli'', cell_2019 = Some (Fin 5),
                         cell_2020 = Some (Fin 1), cell_2021 = Some (Fin 1), cell_2022 = Some (Fin 1) \<rparr>"

text \<open>Two dishes, for regions whose names are aliases of one region.\<close>

definition dish_veg :: Details where
  "dish_veg = \<lparr> details_diet = Some Vegetarian, details_sweet = False, details_prep = Some 10,
                details_cook = None, details_tokens = [''rice'', ''toor dal'', ''rice''] \<rparr>"

definition dish_fish :: Details where
  "dish_fish = \<lparr> details_diet = Some Vegetarian, details_sweet = True, details_prep = None,
                 details_cook = Some 20, details_tokens = [''fish''] \<rparr>"



text \<open>
  An incidence row whose region is the name of a member of \<open>Object.prototype\<close>; the
  population table has no entry for it.
\<close>

definition row_constructor :: CancerRow where
  "row_constructor = \<lparr> State_UT = ''constructor'', cell_2019 = Some (Fin 7),
                        cell_2020 = Some (Fin 8), cell_2021 = Some (Fin 9),
                        cell_2022 = Some (Fin 10) \<rparr>"

text \<open>An incidence row for a region that the population table does not list.\<close>

definition row_unknown_region :: CancerRow where
  "row_unknown_region = \<lparr> State_UT = ''Atlantis'', cell_2019 = Some (Fin 7), cell_2020 = None,
                           cell_2021 = Some (Fin 9), cell_2022 = Some (Fin 10) \<rparr>"

text \<open>Two points on the line \<open>y = 2x\<close> and a point without a finite \<open>x\<close>.\<close>

definition scatter_line :: "ScatterPoint list" where
  "scatter_line =
     [\<lparr> point_state = ''A'', px = Fin 1, py = Fin 2 \<rparr>,
      \<lparr> point_state = ''B'', px = Fin 3, py = Fin 6 \<rparr>,
      \<lparr> point_state = ''C'', px = NaN, py = Fin 1 \<rparr>]"

text \<open>
  Two samples with the same finite coordinates, \<open>x = 2\<^sup>1\<^sup>0\<^sup>2\<^sup>3\<close> (the largest power of two
  among the doubles) and \<open>y = 1\<close>: the sum of the two \<open>x\<close> overflows.
\<close>

definition huge :: real where
  "huge = 2 ^ 1023"

definition scatter_overflow :: "ScatterPoint list" where
  "scatter_overflow =
     [\<lparr> point_state = ''A'', px = Fin huge, py = Fin 1 \<rparr>,
      \<lparr> point_state = ''B'', px = Fin huge, py = Fin 1 \<rparr>]"

text \<open>Six joined records in which every cuisine metric and every incidence metric has a value.\<close>

definition cuisine_sample :: "string \<Rightarrow> cuisine_metrics" where
  "cuisine_sample s =
     \<lparr> state = s, dish_count = 4, pct_veg = Some (1 / 2), pct_sweet = Some (1 / 4),
       avg_prep_time = Some 10, avg_cook_time = Some 20, pct_lentil_like = Some (1 / 4),
       pct_red_meat_like = Some 0, pct_poultry = Some (1 / 4), pct_fish = Some 0,
       pct_turmeric = Some (1 / 2), ingredient_stats = [] \<rparr>"

definition cancer_sample :: "string \<Rightarrow> cancer_metrics" where
  "cancer_sample s =
     \<lparr> cancer_state = s, population = Some 1000000,
       incidence_2019 = Some 100, incidence_2020 = Some 100,
       incidence_2021 = Some 100, incidence_2022 = Some 100,
       incidence_cagr_19_22 = Some (Fin 0),
       incidence_per_100k_2019 = Some 10, incidence_per_100k_2020 = Some 10,
       incidence_per_100k_2021 = Some 10, incidence_per_100k_2022 = Some 10 \<rparr>"

definition joined_six :: "joined_metrics list" where
  "joined_six =
     map (\<lambda>s. \<lparr> joined_state = s, joined_cancer = Some (cancer_sample s),
                 joined_cuisine = Some (cuisine_sample s) \<rparr>)
       [''Assam'', ''Bihar'', ''Goa'', ''Kerala'', ''Punjab'', ''Sikkim'']"

section \<open>Properties of the string helpers\<close>

lemma includes_iff_sublist: "str_includes s t \<longleftrightarrow> sublist t s"
  by (induction s) (simp_all add: sublist_Cons_right)

lemma sublist_eval: "sublist t s \<longleftrightarrow> str_includes s t"
  by (simp add: includes_iff_sublist)

section \<open>Diet classifier\<close>

text \<open>
  C4. For every input string the diet classifier applies substring rules to the lower-cased
  input in fixed priority order: containing "non" gives non-vegetarian, else containing "egg"
  gives non-vegetarian, else containing "veg" gives vegetarian, else unknown (\<open>None\<close>). The
  result depends on the input only up to letter case. In particular, "non-vegetarian" is
  non-vegetarian although it contains "veg", "egg" is non-vegetarian, "vegetarian" is
  vegetarian, and \<open>null\<close> is unknown.
\<close>

theorem classifyDiet_priority:
  "classifyDiet (Some s) =
     (if sublist ''non'' (toLowerCase s) then Some NonVegetarian
      else if sublist ''egg'' (toLowerCase s) then Some NonVegetarian
      else if sublist ''veg'' (toLowerCase s) then Some Vegetarian
      else None)
   \<and> (toLowerCase s = toLowerCase t \<longrightarrow> classifyDiet (Some s) = classifyDiet (Some t))
   \<and> classifyDiet (Some ''non-vegetarian'') = Some NonVegetarian
   \<and> classifyDiet (Some ''egg'') = Some NonVegetarian
   \<and> classifyDiet (Some ''vegetarian'') = Some Vegetarian
   \<and> classifyDiet None = None"
proof -
  have gen: "classifyDiet (Some u) =
     (if sublist ''non'' (toLowerCase u) then Some NonVegetarian
      else if sublist ''egg'' (toLowerCase u) then Some NonVegetarian
      else if sublist ''veg'' (toLowerCase u) then Some Vegetarian
      else None)" for u
  proof (cases "u = []")
    case True
    then show ?thesis by (simp add: classifyDiet_def toLowerCase_def)
  next
    case False
    then show ?thesis by (simp add: classifyDiet_def Let_def includes_iff_sublist)
  qed
  have ci: "toLowerCase s = toLowerCase t \<longrightarrow> classifyDiet (Some s) = classifyDiet (Some t)"
    by (simp add: gen)
  have e1: "classifyDiet (Some ''non-vegetarian'') = Some NonVegetarian"
    by (simp add: classifyDiet_def toLowerCase_def toLowerCaseChar_def)
  have e2: "classifyDiet (Some ''egg'') = Some NonVegetarian"
    by (simp add: classifyDiet_def toLowerCase_def toLowerCaseChar_def)
  have e3: "classifyDiet (Some ''vegetarian'') = Some Vegetarian"
    by (simp add: classifyDiet_def toLowerCase_def toLowerCaseChar_def)
  have e4: "classifyDiet None = None"
    by (simp add: classifyDiet_def)
  from gen[of s] ci e1 e2 e3 e4 show ?thesis by blast
qed

theorem classifyDiet_priority_witness:
  "toLowerCase ''Non Veg'' = toLowerCase ''NON VEG''
   \<and> classifyDiet (Some ''Non Veg'') = Some NonVegetarian
   \<and> classifyDiet (Some ''NON VEG'') = Some NonVegetarian"
proof -
  have l: "toLowerCase ''Non Veg'' = toLowerCase ''NON VEG''"
    by (simp add: toLowerCase_def toLowerCaseChar_def)
  have "classifyDiet (Some ''Non Veg'') = Some NonVegetarian"
    using classifyDiet_priority[of "''Non Veg''" "''NON VEG''"]
    by (simp add: sublist_eval toLowerCase_def toLowerCaseChar_def)
  moreover have "classifyDiet (Some ''Non Veg'') = classifyDiet (Some ''NON VEG'')"
    using classifyDiet_priority[of "''Non Veg''" "''NON VEG''"] l by blast
  ultimately show ?thesis using l by simp
qed

lemma includes_char: "str_includes kw [c] \<longleftrightarrow> c \<in> set kw"
  by (induction kw) auto

section \<open>Sweetness detector\<close>

text \<open>
  C9. The sweetness detector returns true if and only if the lower-cased course mentions
  "dessert" or "sweet", or the lower-cased dish name contains a sweet-dish-name keyword, or the
  lower-cased raw ingredient text contains a sweet-ingredient keyword (multi-word ones
  included), or some ingredient token contains a sweet-ingredient keyword that has no space.
  The multi-word keywords ("condensed milk", "palm jaggery") take no part in the token-level
  check: "condensed milk" is detected in the raw text and not as a token.
\<close>

theorem detectSweetness_iff:
  "(detectSweetness name course tokens rawIngredients \<longleftrightarrow>
      (\<exists>c. course = Some c \<and> (sublist ''dessert'' (toLowerCase c) \<or> sublist ''sweet'' (toLowerCase c)))
    \<or> (\<exists>kw\<in>set SWEET_NAME_KEYWORDS. sublist kw (toLowerCase name))
    \<or> (\<exists>kw\<in>set SWEET_INGREDIENT_KEYWORDS. sublist kw (toLowerCase rawIngredients))
    \<or> (\<exists>token\<in>set tokens. \<exists>kw\<in>set SWEET_INGREDIENT_KEYWORDS.
          CHR '' '' \<notin> set kw \<and> sublist kw token))
   \<and> filter (\<lambda>kw. CHR '' '' \<in> set kw) SWEET_INGREDIENT_KEYWORDS = [''condensed milk'', ''palm jaggery'']
   \<and> detectSweetness ''x'' None [] ''condensed milk''
   \<and> \<not> detectSweetness ''x'' None [''condensed milk''] ''''"
proof -
  have main: "detectSweetness name course tokens rawIngredients \<longleftrightarrow>
      (\<exists>c. course = Some c \<and> (sublist ''dessert'' (toLowerCase c) \<or> sublist ''sweet'' (toLowerCase c)))
    \<or> (\<exists>kw\<in>set SWEET_NAME_KEYWORDS. sublist kw (toLowerCase name))
    \<or> (\<exists>kw\<in>set SWEET_INGREDIENT_KEYWORDS. sublist kw (toLowerCase rawIngredients))
    \<or> (\<exists>token\<in>set tokens. \<exists>kw\<in>set SWEET_INGREDIENT_KEYWORDS.
          CHR '' '' \<notin> set kw \<and> sublist kw token)"
  proof (cases course)
    case None
    then show ?thesis
      unfolding detectSweetness_def Let_def list_ex_iff includes_char
      by (simp add: includes_iff_sublist) blast
  next
    case (Some c)
    then show ?thesis
      unfolding detectSweetness_def Let_def list_ex_iff includes_char
      by (simp add: includes_iff_sublist) blast
  qed
  have multi: "filter (\<lambda>kw. CHR '' '' \<in> set kw) SWEET_INGREDIENT_KEYWORDS = [''condensed milk'', ''palm jaggery'']"
    by (simp add: SWEET_INGREDIENT_KEYWORDS_def)
  have raw: "detectSweetness ''x'' None [] ''condensed milk''"
    by (simp add: detectSweetness_def SWEET_INGREDIENT_KEYWORDS_def SWEET_NAME_KEYWORDS_def
        toLowerCase_def toLowerCaseChar_def)
  have tok: "\<not> detectSweetness ''x'' None [''condensed milk''] ''''"
    by (simp add: detectSweetness_def SWEET_INGREDIENT_KEYWORDS_def SWEET_NAME_KEYWORDS_def
        toLowerCase_def toLowerCaseChar_def)
  from main multi raw tok show ?thesis by blast
qed

theorem detectSweetness_iff_witness:
  "''sugar'' \<in> set SWEET_INGREDIENT_KEYWORDS \<and> CHR '' '' \<notin> set ''sugar''
   \<and> sublist ''sugar'' ''cane sugar''
   \<and> detectSweetness ''dal'' None [''cane sugar''] ''''"
proof -
  have a: "''sugar'' \<in> set SWEET_INGREDIENT_KEYWORDS"
    by (simp add: SWEET_INGREDIENT_KEYWORDS_def)
  have b: "CHR '' '' \<notin> set ''sugar''" by simp
  have c: "sublist ''sugar'' ''cane sugar''" by (simp add: sublist_eval)
  have "\<exists>token\<in>set [''cane sugar'']. \<exists>kw\<in>set SWEET_INGREDIENT_KEYWORDS.
          CHR '' '' \<notin> set kw \<and> sublist kw token"
    using a b c by (intro bexI[where x = "''cane sugar''"] bexI[where x = "''sugar''"]) simp_all
  then have "detectSweetness ''dal'' None [''cane sugar''] ''''"
    using detectSweetness_iff[of "''dal''" None "[''cane sugar'']" "''''"] by blast
  with a b c show ?thesis by blast
qed

section \<open>Incidence totals\<close>

lemma norm_no_break_space: "norm_region (CHR 0xA0 # ''Orissa'') = Name ''Odisha''"
  by (simp add: norm_region_def trim_def isWhiteSpace_def normMap_def getProp_def
      normMap_entries_def)

lemma trim_Daman: "trim ''Daman'' = ''Daman''"
  by (simp add: trim_def isWhiteSpace_def)

lemma trim_DNH: "trim ''Dadra and Nagar Haveli'' = ''Dadra and Nagar Haveli''"
  by (simp add: trim_def isWhiteSpace_def)

lemma norm_Daman: "norm_region ''Daman'' = Name ''Dadra and Nagar Haveli and Daman and Diu''"
  by (simp add: norm_region_def trim_Daman normMap_def getProp_def normMap_entries_def)

lemma norm_DNH:
  "norm_region ''Dadra and Nagar Haveli'' = Name ''Dadra and Nagar Haveli and Daman and Diu''"
  by (simp add: norm_region_def trim_DNH normMap_def getProp_def normMap_entries_def)

text \<open>
  C1. A region's yearly total is specified to be null whenever some contributing row misses
  that year, in whatever order the rows come. The code sets the total to null at a missing
  value, but a later row with a value adds to that null as to zero: of two rows for one
  region, the first missing 2019 and the second giving 5, the 2019 total is 5; with the rows
  in the other order it is null.
\<close>

theorem incidence_null_overwritten:
  "map_option incidence_2019
     (map_of (accumulateCancer [row_missing_2019, row_present_2019])
        ''Dadra and Nagar Haveli and Daman and Diu'') = Some (Some 5)
   \<and> map_option incidence_2019
     (map_of (accumulateCancer [row_present_2019, row_missing_2019])
        ''Dadra and Nagar Haveli and Daman and Diu'') = Some None"
  by (simp add: accumulateCancer_def addCancerRow_def row_missing_2019_def row_present_2019_def
      trim_Daman trim_DNH norm_Daman norm_DNH toNum_def accumulate_def newCancerBucket_def Let_def)

section \<open>Growth rate: the guard and the value\<close>







section \<open>Sorting, objects and the aggregator\<close>

lemma set_insert_js: "set (insert_js cmp v ws) = insert v (set ws)"
  by (induction ws) auto

lemma set_sort_js: "set (sort_js cmp vs) = set vs"
  by (induction vs) (simp_all add: set_insert_js)

lemma length_insert_js: "length (insert_js cmp v ws) = Suc (length ws)"
  by (induction ws) auto

lemma length_sort_js: "length (sort_js cmp vs) = length vs"
  by (induction vs) (simp_all add: length_insert_js)

lemma set_assign_subset: "set (assign kvs k v) \<subseteq> insert (k, v) (set kvs)"
  by (induction kvs k v rule: assign.induct) auto

lemma map_fst_assign:
  "map fst (assign kvs k v) = (if k \<in> set (map fst kvs) then map fst kvs else map fst kvs @ [k])"
  by (induction kvs k v rule: assign.induct) auto

lemma keys_assign: "set (map fst (assign kvs k v)) = insert k (set (map fst kvs))"
  unfolding map_fst_assign by (simp add: insert_absorb)


lemma set_objectEntries: "set (objectEntries kvs) = set kvs"
  by (auto simp add: objectEntries_def)

lemma mset_objectEntries: "mset (objectEntries kvs) = mset kvs"
  by (simp add: objectEntries_def)

lemma objectEntries_single: "objectEntries [kv] = [kv]"
  by (simp add: objectEntries_def)

lemma distinct_keys_objectEntries:
  assumes "distinct (map fst kvs)"
  shows "distinct (map fst (objectEntries kvs))"
proof -
  have "mset (map fst (objectEntries kvs)) = mset (map fst kvs)"
    by (simp add: mset_objectEntries)
  then show ?thesis using assms by (metis distinct_count_atmost_1 set_mset_mset)
qed

lemma addTokens_fields:
  "acc_state (addTokens toks b) = acc_state b"
  "acc_dish_count (addTokens toks b) = acc_dish_count b"
  "veg (addTokens toks b) = veg b"
  "sweet (addTokens toks b) = sweet b"
  by (simp_all add: addTokens_def Let_def)

lemma addToBucket_state: "acc_state (addToBucket d b) = acc_state b"
  by (simp add: addToBucket_def Let_def addTokens_fields split: option.split)

lemma addToBucket_dish_count: "acc_dish_count (addToBucket d b) = acc_dish_count b + 1"
  by (simp add: addToBucket_def Let_def addTokens_fields split: option.split)

lemma addToBucket_veg: "veg (addToBucket d b) \<le> veg b + 1"
  by (simp add: addToBucket_def Let_def addTokens_fields split: option.split)

lemma addToBucket_sweet: "sweet (addToBucket d b) \<le> sweet b + 1"
  by (simp add: addToBucket_def Let_def addTokens_fields split: option.split)

lemma addToBucket_mentions:
  "lentil_like (addToBucket d b) \<le> lentil_like b + 1"
  "red_meat_like (addToBucket d b) \<le> red_meat_like b + 1"
  "poultry (addToBucket d b) \<le> poultry b + 1"
  "fish (addToBucket d b) \<le> fish b + 1"
  "turmeric (addToBucket d b) \<le> turmeric b + 1"
  by (simp_all add: addToBucket_def Let_def addTokens_def split: option.split)

lemma counts_bounded_new: "counts_bounded (newCuisineBucket st)"
  by (simp add: counts_bounded_def newCuisineBucket_def)

lemma counts_bounded_add:
  assumes "counts_bounded b"
  shows "counts_bounded (addToBucket d b)"
  using assms addToBucket_veg[of d b] addToBucket_sweet[of d b] addToBucket_mentions[of d b]
  unfolding counts_bounded_def addToBucket_dish_count by linarith

lemma addObservation_ok:
  assumes "\<forall>kb\<in>set acc. bucket_ok kb"
  shows "\<forall>kb\<in>set (addObservation acc stateRaw d). bucket_ok kb"
proof -
  define st where "st = norm_region stateRaw"
  define bucket where
    "bucket = (case map_of acc (keyText st) of Some b \<Rightarrow> b | None \<Rightarrow> newCuisineBucket st)"
  have cb: "counts_bounded bucket \<and> keyText (acc_state bucket) = keyText st"
  proof (cases "map_of acc (keyText st)")
    case None
    then have "bucket = newCuisineBucket st" by (simp add: bucket_def)
    moreover have "acc_state (newCuisineBucket st) = st" by (simp add: newCuisineBucket_def)
    ultimately show ?thesis by (simp add: counts_bounded_new)
  next
    case (Some b)
    then have "(keyText st, b) \<in> set acc" by (rule map_of_SomeD)
    with assms have "bucket_ok (keyText st, b)" by blast
    with Some show ?thesis by (simp add: bucket_def bucket_ok_def)
  qed
  have new_ok: "bucket_ok (keyText st, addToBucket d bucket)"
    using cb by (simp add: bucket_ok_def counts_bounded_add addToBucket_dish_count addToBucket_state)
  show ?thesis
  proof (cases "st = Name [] \<or> st = Name ''-1''")
    case True
    then show ?thesis using assms by (simp add: addObservation_def st_def[symmetric])
  next
    case False
    then have eq: "addObservation acc stateRaw d = assign acc (keyText st) (addToBucket d bucket)"
      by (simp add: addObservation_def st_def[symmetric] bucket_def Let_def)
    show ?thesis unfolding eq
      using set_assign_subset[of acc "keyText st" "addToBucket d bucket"] assms new_ok
      by auto
  qed
qed

lemma foldl_addObservation_ok:
  assumes "\<forall>kb\<in>set acc. bucket_ok kb"
  shows "\<forall>kb\<in>set (foldl (\<lambda>cuisineAcc (stateRaw, details). addObservation cuisineAcc stateRaw details) acc obs). bucket_ok kb"
  using assms
proof (induction obs arbitrary: acc)
  case Nil
  then show ?case by simp
next
  case (Cons ob obs)
  obtain s d where ob: "ob = (s, d)" by (cases ob)
  have "\<forall>kb\<in>set (addObservation acc s d). bucket_ok kb"
    using Cons.prems by (rule addObservation_ok)
  then show ?case using Cons.IH ob by simp
qed

lemma accumulateCuisine_ok: "\<forall>kb\<in>set (accumulateCuisine obs). bucket_ok kb"
  unfolding accumulateCuisine_def by (rule foldl_addObservation_ok) simp

lemma ratio_unit: "n \<le> d \<Longrightarrow> 1 \<le> d \<Longrightarrow> unit_share (ratio (real n) d)"
  by (simp add: unit_share_def ratio_def)

lemma summarise_ok:
  assumes "1 \<le> acc_dish_count b" "counts_bounded b"
  shows "1 \<le> dish_count (summarise cmp b) \<and> shares_ok (summarise cmp b)"
  using assms by (simp add: summarise_def shares_ok_def counts_bounded_def ratio_unit)

section \<open>Aliases and emitted summaries\<close>

lemma getProp_Own: "getProp entries key = Own v \<longleftrightarrow> map_of entries key = Some v"
  by (simp add: getProp_def split: option.split)

lemma normMap_range: "normMap t = Own k \<Longrightarrow> k \<noteq> [] \<and> k \<noteq> ''-1''"
  unfolding normMap_def getProp_Own normMap_entries_def by (drule map_of_SomeD) auto

lemma norm_region_alias: "normMap (trim R) = Own k \<Longrightarrow> norm_region R = Name k"
  using normMap_range[of "trim R" k] by (simp add: norm_region_def)

lemma two_aliases:
  assumes "normMap (trim R1) = Own k" "normMap (trim R2) = Own k"
  shows "accumulateCuisine [(R1, d1), (R2, d2)]
           = [(k, addToBucket d2 (addToBucket d1 (newCuisineBucket (Name k))))]"
  using normMap_range[OF assms(1)]
  by (simp add: accumulateCuisine_def addObservation_def norm_region_alias[OF assms(1)]
      norm_region_alias[OF assms(2)])

lemma trim_Pondicherry: "trim ''Pondicherry'' = ''Pondicherry''"
  by (simp add: trim_def isWhiteSpace_def)

lemma trim_Puducherry: "trim '' Puducherry '' = ''Puducherry''"
  by (simp add: trim_def isWhiteSpace_def)

lemma alias_Pondicherry: "normMap (trim ''Pondicherry'') = Own ''Puducherry''"
  by (simp add: trim_Pondicherry normMap_def getProp_def normMap_entries_def)

lemma alias_Puducherry: "normMap (trim '' Puducherry '') = Own ''Puducherry''"
  by (simp add: trim_Puducherry normMap_def getProp_def normMap_entries_def)

text \<open>
  C5. For all raw region spellings \<open>R1\<close> and \<open>R2\<close> that the alias table maps (after
  trimming) to the same canonical key, adding one observation under \<open>R1\<close> and one under
  \<open>R2\<close> to the empty aggregator yields one bucket, under that key, and the summary rows are
  produced and are one row, for that key, with dish count 2.
\<close>

theorem alias_spellings_share_bucket:
  assumes "normMap (trim R1) = Own k" and "normMap (trim R2) = Own k"
  shows "map fst (accumulateCuisine [(R1, d1), (R2, d2)]) = [k]
    \<and> map_option (map state)
          (cuisineRowsOf localeCompare (accumulateCuisine [(R1, d1), (R2, d2)])) = Some [Name k]
    \<and> map_option (map dish_count)
          (cuisineRowsOf localeCompare (accumulateCuisine [(R1, d1), (R2, d2)])) = Some [2]"
  unfolding two_aliases[OF assms]
  by (simp add: cuisineRowsOf_def sort_regions_def objectEntries_single summarise_def
      addToBucket_state addToBucket_dish_count newCuisineBucket_def)

theorem alias_spellings_share_bucket_witness:
  "normMap (trim ''Pondicherry'') = Own ''Puducherry''
   \<and> normMap (trim '' Puducherry '') = Own ''Puducherry''
   \<and> map_option (map state) (cuisineRowsOf compareStrings
        (accumulateCuisine [(''Pondicherry'', dish_veg), ('' Puducherry '', dish_fish)]))
       = Some [Name ''Puducherry'']
   \<and> map_option (map dish_count) (cuisineRowsOf compareStrings
        (accumulateCuisine [(''Pondicherry'', dish_veg), ('' Puducherry '', dish_fish)])) = Some [2]"
  using alias_spellings_share_bucket[OF alias_Pondicherry alias_Puducherry, of dish_veg dish_fish compareStrings]
    alias_Pondicherry alias_Puducherry
  by simp

text \<open>
  C10. After any sequence of observations, every bucket of the aggregator has a dish count
  of at least 1 and each of its vegetarian, sweet, lentil, red-meat, poultry, fish and
  turmeric counts is at most the dish count; so the summary row of every bucket, and with it
  every emitted summary row, has a dish count of at least 1 and each of its seven share
  fields is present and lies in [0, 1].
\<close>

theorem emitted_shares_in_unit_interval:
  "(\<forall>kb\<in>set (accumulateCuisine observations).
      1 \<le> acc_dish_count (snd kb) \<and> counts_bounded (snd kb)
      \<and> 1 \<le> dish_count (summarise localeCompare (snd kb))
      \<and> shares_ok (summarise localeCompare (snd kb)))
   \<and> (\<forall>rows. cuisineRowsOf localeCompare (accumulateCuisine observations) = Some rows
        \<longrightarrow> (\<forall>row\<in>set rows. 1 \<le> dish_count row \<and> shares_ok row))"
proof -
  have a: "\<forall>kb\<in>set (accumulateCuisine observations).
             1 \<le> acc_dish_count (snd kb) \<and> counts_bounded (snd kb)"
    using accumulateCuisine_ok[of observations] by (simp add: bucket_ok_def)
  have b: "1 \<le> dish_count (summarise localeCompare (snd kb))
           \<and> shares_ok (summarise localeCompare (snd kb))"
    if "kb \<in> set (accumulateCuisine observations)" for kb
    using a that summarise_ok[of "snd kb" localeCompare] by blast
  have "1 \<le> dish_count row \<and> shares_ok row"
    if rows: "cuisineRowsOf localeCompare (accumulateCuisine observations) = Some rows"
      and row: "row \<in> set rows" for rows row
  proof -
    from rows have "set rows
        = set (map (\<lambda>(k, bucket). summarise localeCompare bucket)
                (objectEntries (accumulateCuisine observations)))"
      by (auto simp add: cuisineRowsOf_def sort_regions_def set_sort_js split: if_splits)
    with row obtain kb where kb: "kb \<in> set (accumulateCuisine observations)"
      and "row = summarise localeCompare (snd kb)"
      by (auto simp add: set_objectEntries)
    then show ?thesis using b by simp
  qed
  with a b show ?thesis by blast
qed

theorem emitted_shares_in_unit_interval_witness:
  "map_option (map dish_count) (cuisineRowsOf compareStrings
      (accumulateCuisine [(''Pondicherry'', dish_veg), ('' Puducherry '', dish_fish)])) = Some [2]
   \<and> (\<exists>rows. cuisineRowsOf compareStrings
          (accumulateCuisine [(''Pondicherry'', dish_veg), ('' Puducherry '', dish_fish)])
        = Some rows
      \<and> list_all (\<lambda>row. 1 \<le> dish_count row \<and> shares_ok row) rows)"
proof -
  have d: "map_option (map dish_count) (cuisineRowsOf compareStrings
      (accumulateCuisine [(''Pondicherry'', dish_veg), ('' Puducherry '', dish_fish)])) = Some [2]"
    unfolding two_aliases[OF alias_Pondicherry alias_Puducherry]
    by (simp add: cuisineRowsOf_def sort_regions_def objectEntries_single summarise_def
        addToBucket_dish_count newCuisineBucket_def)
  then obtain rows where rows: "cuisineRowsOf compareStrings
      (accumulateCuisine [(''Pondicherry'', dish_veg), ('' Puducherry '', dish_fish)]) = Some rows"
    by auto
  have "list_all (\<lambda>row. 1 \<le> dish_count row \<and> shares_ok row) rows"
    using emitted_shares_in_unit_interval[of "[(''Pondicherry'', dish_veg), ('' Puducherry '', dish_fish)]" compareStrings]
      rows
    unfolding list_all_iff by blast
  with d rows show ?thesis by blast
qed

section \<open>The join\<close>



lemma sorted_insert_js:
  assumes total: "\<And>a b. cmp a b \<le> 0 \<or> cmp b a \<le> 0"
    and trans: "\<And>a b c. cmp a b \<le> 0 \<Longrightarrow> cmp b c \<le> 0 \<Longrightarrow> cmp a c \<le> 0"
    and "sorted_wrt (\<lambda>a b. cmp a b \<le> 0) ws"
  shows "sorted_wrt (\<lambda>a b. cmp a b \<le> 0) (insert_js cmp v ws)"
  using assms(3)
proof (induction ws)
  case Nil
  then show ?case by simp
next
  case (Cons w ws)
  show ?case
  proof (cases "cmp v w \<le> 0")
    case True
    have "cmp v u \<le> 0" if "u \<in> set ws" for u
      using Cons.prems that trans[OF True, of u] by simp
    with True Cons.prems show ?thesis by simp
  next
    case False
    then have "cmp w v \<le> 0" using total[of v w] by simp
    with False Cons show ?thesis by (simp add: set_insert_js)
  qed
qed

lemma sorted_sort_js:
  assumes "\<And>a b. cmp a b \<le> 0 \<or> cmp b a \<le> 0"
    and "\<And>a b c. cmp a b \<le> 0 \<Longrightarrow> cmp b c \<le> 0 \<Longrightarrow> cmp a c \<le> 0"
  shows "sorted_wrt (\<lambda>a b. cmp a b \<le> 0) (sort_js cmp vs)"
  by (induction vs) (simp_all add: sorted_insert_js[OF assms])

















section \<open>Property keys of the regions\<close>

lemma memberText_own: "memberText m \<notin> set objectPrototypeKeys"
  by (simp add: memberText_def objectPrototypeKeys_def)

lemma alias_target_own: "map_of normMap_entries t = Some k \<Longrightarrow> k \<notin> set objectPrototypeKeys"
  unfolding normMap_entries_def objectPrototypeKeys_def by (drule map_of_SomeD) auto

lemma norm_key_own: "keyText (norm_region s) \<notin> set objectPrototypeKeys"
proof (cases "normMap (trim s)")
  case (Own k)
  then have "norm_region s = Name k" by (rule norm_region_alias)
  moreover from Own have "k \<notin> set objectPrototypeKeys"
    unfolding normMap_def getProp_Own by (rule alias_target_own)
  ultimately show ?thesis by simp
next
  case (Inherited m)
  then show ?thesis by (simp add: norm_region_def memberText_own)
next
  case Missing
  then have "trim s \<notin> set objectPrototypeKeys"
    by (simp add: normMap_def getProp_def split: option.splits if_splits)
  with Missing show ?thesis by (simp add: norm_region_def)
qed

lemma norm_key_lookup:
  "getProp entries (keyText (norm_region s))
     = (case map_of entries (keyText (norm_region s)) of Some v \<Rightarrow> Own v | None \<Rightarrow> Missing)"
  using norm_key_own[of s] by (simp add: getProp_def)

section \<open>Missing population figures\<close>

lemma trim_Atlantis: "trim ''Atlantis'' = ''Atlantis''"
  by (simp add: trim_def isWhiteSpace_def)

lemma norm_Atlantis: "norm_region ''Atlantis'' = Name ''Atlantis''"
  by (simp add: norm_region_def trim_Atlantis normMap_def getProp_def normMap_entries_def
      objectPrototypeKeys_def)

lemma population_Atlantis: "STATE_POPULATION_2021 ''Atlantis'' = Missing"
  by (simp add: STATE_POPULATION_2021_def getProp_def STATE_POPULATION_2021_entries_def
      objectPrototypeKeys_def)

lemma main_Atlantis:
  "main compareStrings (\<lambda>d. 0) [row_unknown_region] []
     = ([], Some (Error ''Missing population for states: Atlantis''))"
  by (simp add: main_def Let_def accumulateCancer_def addCancerRow_def row_unknown_region_def
      trim_Atlantis norm_Atlantis population_Atlantis newCancerBucket_def deriveAll_def
      deriveCancerMetrics_def cancerRowsOf_def objectEntries_single sort_regions_def
      missingPopulation_def)

lemma trim_constructor: "trim ''constructor'' = ''constructor''"
  by (simp add: trim_def isWhiteSpace_def)

lemma norm_constructor: "norm_region ''constructor'' = Member ''constructor''"
  by (simp add: norm_region_def trim_constructor normMap_def getProp_def normMap_entries_def
      objectPrototypeKeys_def)

lemma text_constructor: "memberText ''constructor'' = ''function Object() { [native code] }''"
  by (simp add: memberText_def)

lemma population_text_constructor:
  "STATE_POPULATION_2021 ''function Object() { [native code] }'' = Missing"
  by (simp add: STATE_POPULATION_2021_def getProp_def STATE_POPULATION_2021_entries_def
      objectPrototypeKeys_def)

lemma population_constructor: "STATE_POPULATION_2021 ''constructor'' = Inherited ''constructor''"
  by (simp add: STATE_POPULATION_2021_def getProp_def STATE_POPULATION_2021_entries_def
      objectPrototypeKeys_def)

lemma bucket_constructor:
  "deriveAll (accumulateCancer [row_constructor])
     = [(''function Object() { [native code] }'',
         \<lparr> cancer_state = Member ''constructor'', population = Inherited ''constructor'',
           incidence_2019 = Some 7, incidence_2020 = Some 8,
           incidence_2021 = Some 9, incidence_2022 = Some 10,
           incidence_cagr_19_22 = cagr (Fin 7) (Fin 10) (Fin 3),
           incidence_per_100k_2019 = Some NaN, incidence_per_100k_2020 = Some NaN,
           incidence_per_100k_2021 = Some NaN, incidence_per_100k_2022 = Some NaN \<rparr>)]"
  by (simp add: accumulateCancer_def addCancerRow_def row_constructor_def trim_constructor
      norm_constructor text_constructor population_text_constructor population_constructor
      newCancerBucket_def toNum_def accumulate_def deriveAll_def deriveCancerMetrics_def
      per100k_def Let_def)

text \<open>
  C7. A region of the aggregated incidence output without a population figure is specified
  to halt the run, with an error that names it, before any document is written. The code
  does so for a region such as \<open>Atlantis\<close>. For the region cell \<open>constructor\<close>, which has no
  entry in the population table (nor has the text of what \<open>norm\<close> returns for it), the table
  lookup finds the member that every object inherits, which is not \<open>null\<close>: the check lists
  no region, the run writes its three documents and ends without an error, and the four
  rates of the region are NaN.
\<close>

theorem missing_population_undetected:
  "main compareStrings (\<lambda>d. 0) [row_unknown_region] []
     = ([], Some (Error ''Missing population for states: Atlantis''))
   \<and> map_of STATE_POPULATION_2021_entries ''constructor'' = None
   \<and> map_of STATE_POPULATION_2021_entries (keyText (norm_region ''constructor'')) = None
   \<and> (\<exists>bucket. main compareStrings (\<lambda>d. 0) [row_constructor] []
          = ([CancerDoc [bucket], CuisineDoc [],
              JoinedDoc [\<lparr> joined_state = Name ''function Object() { [native code] }'',
                           joined_cancer = Own bucket, joined_cuisine = None \<rparr>]], None)
        \<and> cancer_state bucket = norm_region ''constructor''
        \<and> population bucket = Inherited ''constructor''
        \<and> incidence_2019 bucket = Some 7
        \<and> incidence_per_100k_2019 bucket = Some NaN
        \<and> missingPopulation [bucket] = [])"
proof -
  have a: "map_of STATE_POPULATION_2021_entries ''constructor'' = None"
    by (simp add: STATE_POPULATION_2021_entries_def)
  have b: "map_of STATE_POPULATION_2021_entries (keyText (norm_region ''constructor'')) = None"
    by (simp add: norm_constructor text_constructor STATE_POPULATION_2021_entries_def)
  have c: "\<exists>bucket. main compareStrings (\<lambda>d. 0) [row_constructor] []
          = ([CancerDoc [bucket], CuisineDoc [],
              JoinedDoc [\<lparr> joined_state = Name ''function Object() { [native code] }'',
                           joined_cancer = Own bucket, joined_cuisine = None \<rparr>]], None)
        \<and> cancer_state bucket = norm_region ''constructor''
        \<and> population bucket = Inherited ''constructor''
        \<and> incidence_2019 bucket = Some 7
        \<and> incidence_per_100k_2019 bucket = Some NaN
        \<and> missingPopulation [bucket] = []"
    unfolding main_def bucket_constructor norm_constructor
    by (simp add: Let_def cancerRowsOf_def cuisineRowsOf_def accumulateCuisine_def
        objectEntries_single objectEntries_def sort_regions_def missingPopulation_def
        joinRows_def cuisineByStateOf_def getProp_def)
  from main_Atlantis a b c show ?thesis by (intro conjI)
qed

section \<open>Scatter regression: null and the fitted values\<close>

lemma d3_mean_counted:
  assumes "NaN \<notin> set vs" and "vs \<noteq> []"
  shows "orZero (d3_mean ops vs) = spec_mean ops vs"
proof -
  have "filter (\<lambda>v. v \<noteq> NaN) vs = vs" using assms(1) by (auto simp add: filter_id_conv)
  then show ?thesis using assms(2) by (simp add: d3_mean_def orZero_def spec_mean_def Let_def)
qed

lemma finite_not_NaN: "isFinite v \<Longrightarrow> v \<noteq> NaN"
  by (cases v) simp_all

lemma regression_fit:
  assumes ne: "valid \<noteq> []"
    and fin: "\<forall>d\<in>set valid. isFinite (px d) \<and> isFinite (py d)"
    and sx: "NaN \<notin> set (squared_deviations ops (map px valid))"
    and sy: "NaN \<notin> set (squared_deviations ops (map py valid))"
    and sp: "NaN \<notin> set (deviation_products ops (map (\<lambda>d. (px d, py d)) valid))"
  shows "slope (regression ops valid)
           = (if spec_variance ops (map px valid) = Fin 0 then Fin 0
              else f_div ops (spec_covariance ops (map (\<lambda>d. (px d, py d)) valid))
                     (spec_variance ops (map px valid)))"
    and "intercept (regression ops valid)
           = f_sub ops (spec_mean ops (map py valid))
               (f_mul ops (slope (regression ops valid)) (spec_mean ops (map px valid)))"
    and "pearson_r (regression ops valid)
           = (if spec_variance ops (map px valid) = Fin 0
                 \<or> spec_variance ops (map py valid) = Fin 0 then Fin 0
              else f_div ops (spec_covariance ops (map (\<lambda>d. (px d, py d)) valid))
                     (f_sqrt ops (f_mul ops (spec_variance ops (map px valid))
                                            (spec_variance ops (map py valid)))))"
proof -
  have nx: "NaN \<notin> set (map px valid)" and ny: "NaN \<notin> set (map py valid)"
    using fin finite_not_NaN by auto
  have mx: "orZero (d3_mean ops (map px valid)) = spec_mean ops (map px valid)"
    using nx ne by (simp add: d3_mean_counted)
  have my: "orZero (d3_mean ops (map py valid)) = spec_mean ops (map py valid)"
    using ny ne by (simp add: d3_mean_counted)
  have tx: "map (\<lambda>d. f_pow ops (f_sub ops (px d) (spec_mean ops (map px valid))) (Fin 2)) valid
              = squared_deviations ops (map px valid)"
    by (simp add: squared_deviations_def comp_def)
  have ty: "map (\<lambda>d. f_pow ops (f_sub ops (py d) (spec_mean ops (map py valid))) (Fin 2)) valid
              = squared_deviations ops (map py valid)"
    by (simp add: squared_deviations_def comp_def)
  have tp: "map (\<lambda>d. f_mul ops (f_sub ops (px d) (spec_mean ops (map px valid)))
                               (f_sub ops (py d) (spec_mean ops (map py valid)))) valid
              = deviation_products ops (map (\<lambda>d. (px d, py d)) valid)"
    by (simp add: deviation_products_def comp_def)
  have vx: "orZero (d3_mean ops (squared_deviations ops (map px valid)))
              = spec_variance ops (map px valid)"
    unfolding spec_variance_def using sx ne
    by (intro d3_mean_counted) (simp_all add: squared_deviations_def)
  have vy: "orZero (d3_mean ops (squared_deviations ops (map py valid)))
              = spec_variance ops (map py valid)"
    unfolding spec_variance_def using sy ne
    by (intro d3_mean_counted) (simp_all add: squared_deviations_def)
  have cv: "orZero (d3_mean ops (deviation_products ops (map (\<lambda>d. (px d, py d)) valid)))
              = spec_covariance ops (map (\<lambda>d. (px d, py d)) valid)"
    unfolding spec_covariance_def using sp ne
    by (intro d3_mean_counted) (simp_all add: deviation_products_def)
  show "slope (regression ops valid)
           = (if spec_variance ops (map px valid) = Fin 0 then Fin 0
              else f_div ops (spec_covariance ops (map (\<lambda>d. (px d, py d)) valid))
                     (spec_variance ops (map px valid)))"
    unfolding regression_def Let_def mx my tx ty tp vx vy cv by simp
  show "intercept (regression ops valid)
           = f_sub ops (spec_mean ops (map py valid))
               (f_mul ops (slope (regression ops valid)) (spec_mean ops (map px valid)))"
    unfolding regression_def Let_def mx my tx ty tp vx vy cv by simp
  show "pearson_r (regression ops valid)
           = (if spec_variance ops (map px valid) = Fin 0
                 \<or> spec_variance ops (map py valid) = Fin 0 then Fin 0
              else f_div ops (spec_covariance ops (map (\<lambda>d. (px d, py d)) valid))
                     (f_sqrt ops (f_mul ops (spec_variance ops (map px valid))
                                            (spec_variance ops (map py valid)))))"
    unfolding regression_def Let_def mx my tx ty tp vx vy cv by simp
qed

lemma finite_samples_coords:
  "map fst (finite_samples data)
     = map px (filter (\<lambda>d. isFinite (px d) \<and> isFinite (py d)) data)"
  "map snd (finite_samples data)
     = map py (filter (\<lambda>d. isFinite (px d) \<and> isFinite (py d)) data)"
  by (simp_all add: finite_samples_def comp_def)

lemma renderScatter_null: "renderScatter ops data = None \<longleftrightarrow> finite_samples data = []"
  by (simp add: renderScatter_def finite_samples_def Let_def)

text \<open>
  C2. The scatter regression returns null exactly when no sample has both \<open>x\<close> and \<open>y\<close>
  finite. When it returns metrics, and none of the squared deviations and of the products of
  deviations of the finite samples is NaN, then in the arithmetic of the platform, whatever
  it is: the slope is covariance / variance(x), or 0 when the computed variance(x) is 0; the
  intercept is meanY - slope * meanX; and r is covariance / sqrt(varX * varY), or 0 when
  either computed variance is 0; the means, variances and covariance are those of the finite
  samples, summed in order and divided by their number.
\<close>

theorem renderScatter_fit:
  "(renderScatter ops data = None \<longleftrightarrow> \<not> (\<exists>d\<in>set data. isFinite (px d) \<and> isFinite (py d)))
   \<and> (\<forall>m. renderScatter ops data = Some m
          \<and> NaN \<notin> set (squared_deviations ops (map fst (finite_samples data)))
          \<and> NaN \<notin> set (squared_deviations ops (map snd (finite_samples data)))
          \<and> NaN \<notin> set (deviation_products ops (finite_samples data)) \<longrightarrow>
        slope m = (if spec_variance ops (map fst (finite_samples data)) = Fin 0 then Fin 0
                   else f_div ops (spec_covariance ops (finite_samples data))
                          (spec_variance ops (map fst (finite_samples data))))
        \<and> intercept m = f_sub ops (spec_mean ops (map snd (finite_samples data)))
                           (f_mul ops (slope m) (spec_mean ops (map fst (finite_samples data))))
        \<and> pearson_r m =
            (if spec_variance ops (map fst (finite_samples data)) = Fin 0
                \<or> spec_variance ops (map snd (finite_samples data)) = Fin 0 then Fin 0
             else f_div ops (spec_covariance ops (finite_samples data))
                    (f_sqrt ops (f_mul ops (spec_variance ops (map fst (finite_samples data)))
                                           (spec_variance ops (map snd (finite_samples data)))))))"
proof -
  define valid where "valid = filter (\<lambda>d. isFinite (px d) \<and> isFinite (py d)) data"
  have fs: "finite_samples data = map (\<lambda>d. (px d, py d)) valid"
    by (simp add: finite_samples_def valid_def)
  have cx: "map fst (finite_samples data) = map px valid"
    and cy: "map snd (finite_samples data) = map py valid"
    by (simp_all add: finite_samples_coords valid_def)
  have none: "renderScatter ops data = None
                \<longleftrightarrow> \<not> (\<exists>d\<in>set data. isFinite (px d) \<and> isFinite (py d))"
    by (simp add: renderScatter_def Let_def filter_empty_conv)
  have some: "slope m = (if spec_variance ops (map fst (finite_samples data)) = Fin 0 then Fin 0
                   else f_div ops (spec_covariance ops (finite_samples data))
                          (spec_variance ops (map fst (finite_samples data))))
        \<and> intercept m = f_sub ops (spec_mean ops (map snd (finite_samples data)))
                           (f_mul ops (slope m) (spec_mean ops (map fst (finite_samples data))))
        \<and> pearson_r m =
            (if spec_variance ops (map fst (finite_samples data)) = Fin 0
                \<or> spec_variance ops (map snd (finite_samples data)) = Fin 0 then Fin 0
             else f_div ops (spec_covariance ops (finite_samples data))
                    (f_sqrt ops (f_mul ops (spec_variance ops (map fst (finite_samples data)))
                                           (spec_variance ops (map snd (finite_samples data))))))"
    if r: "renderScatter ops data = Some m"
      and sx: "NaN \<notin> set (squared_deviations ops (map fst (finite_samples data)))"
      and sy: "NaN \<notin> set (squared_deviations ops (map snd (finite_samples data)))"
      and sp: "NaN \<notin> set (deviation_products ops (finite_samples data))" for m
  proof -
    from r have ne: "valid \<noteq> []" and m: "m = regression ops valid"
      by (auto simp add: renderScatter_def Let_def valid_def split: if_splits)
    have fin: "\<forall>d\<in>set valid. isFinite (px d) \<and> isFinite (py d)" by (simp add: valid_def)
    note R = regression_fit[OF ne fin sx[unfolded cx] sy[unfolded cy] sp[unfolded fs]]
    show ?thesis unfolding m cx cy unfolding fs by (intro conjI R)
  qed
  from none some show ?thesis by blast
qed

lemma overflow_small: "\<bar>a\<bar> < 2 ^ 1024 \<Longrightarrow> overflow (Fin a) = Fin a"
  by (simp add: overflow_def abs_less_iff)

lemma scatter_line_samples: "finite_samples scatter_line = [(Fin 1, Fin 2), (Fin 3, Fin 6)]"
  by (simp add: finite_samples_def scatter_line_def)

lemma small_numbers:
  "\<bar>1 :: real\<bar> < 2 ^ 1024" "\<bar>2 :: real\<bar> < 2 ^ 1024" "\<bar>3 :: real\<bar> < 2 ^ 1024"
  "\<bar>4 :: real\<bar> < 2 ^ 1024" "\<bar>6 :: real\<bar> < 2 ^ 1024" "\<bar>8 :: real\<bar> < 2 ^ 1024"
  "\<bar>0 :: real\<bar> < 2 ^ 1024" "\<bar>- 1 :: real\<bar> < 2 ^ 1024" "\<bar>- 2 :: real\<bar> < 2 ^ 1024"
proof -
  have "(8 :: real) = 2 ^ 3" by simp
  also have "\<dots> < 2 ^ 1024" by (rule power_strict_increasing) simp_all
  finally have "(8 :: real) < 2 ^ 1024" .
  then show "\<bar>1 :: real\<bar> < 2 ^ 1024" "\<bar>2 :: real\<bar> < 2 ^ 1024" "\<bar>3 :: real\<bar> < 2 ^ 1024"
    "\<bar>4 :: real\<bar> < 2 ^ 1024" "\<bar>6 :: real\<bar> < 2 ^ 1024" "\<bar>8 :: real\<bar> < 2 ^ 1024"
    "\<bar>0 :: real\<bar> < 2 ^ 1024" "\<bar>- 1 :: real\<bar> < 2 ^ 1024" "\<bar>- 2 :: real\<bar> < 2 ^ 1024"
    by simp_all
qed

lemma range_small:
  "f_add range_ops (Fin 0) (Fin 1) = Fin 1" "f_add range_ops (Fin 1) (Fin 3) = Fin 4"
  "f_add range_ops (Fin 0) (Fin 2) = Fin 2" "f_add range_ops (Fin 2) (Fin 6) = Fin 8"
  "f_add range_ops (Fin 1) (Fin 1) = Fin 2" "f_add range_ops (Fin 0) (Fin 4) = Fin 4"
  "f_add range_ops (Fin 4) (Fin 4) = Fin 8" "f_add range_ops (Fin 2) (Fin 2) = Fin 4"
  "f_div range_ops (Fin 4) (Fin 2) = Fin 2" "f_div range_ops (Fin 8) (Fin 2) = Fin 4"
  "f_div range_ops (Fin 2) (Fin 2) = Fin 1" "f_div range_ops (Fin 2) (Fin 1) = Fin 2"
  "f_sub range_ops (Fin 1) (Fin 2) = Fin (- 1)" "f_sub range_ops (Fin 3) (Fin 2) = Fin 1"
  "f_sub range_ops (Fin 2) (Fin 4) = Fin (- 2)" "f_sub range_ops (Fin 6) (Fin 4) = Fin 2"
  "f_sub range_ops (Fin 4) (Fin 4) = Fin 0"
  "f_pow range_ops (Fin (- 1)) (Fin 2) = Fin 1" "f_pow range_ops (Fin 1) (Fin 2) = Fin 1"
  "f_pow range_ops (Fin (- 2)) (Fin 2) = Fin 4" "f_pow range_ops (Fin 2) (Fin 2) = Fin 4"
  "f_mul range_ops (Fin (- 1)) (Fin (- 2)) = Fin 2" "f_mul range_ops (Fin 1) (Fin 2) = Fin 2"
  "f_mul range_ops (Fin 1) (Fin 4) = Fin 4" "f_mul range_ops (Fin 2) (Fin 2) = Fin 4"
  "f_sqrt range_ops (Fin 4) = Fin 2"
  by (simp_all add: range_ops_def js_pow_def overflow_small small_numbers)

lemma scatter_line_stats:
  "spec_mean range_ops [Fin 1, Fin 3] = Fin 2"
  "spec_mean range_ops [Fin 2, Fin 6] = Fin 4"
  "squared_deviations range_ops [Fin 1, Fin 3] = [Fin 1, Fin 1]"
  "squared_deviations range_ops [Fin 2, Fin 6] = [Fin 4, Fin 4]"
  "deviation_products range_ops [(Fin 1, Fin 2), (Fin 3, Fin 6)] = [Fin 2, Fin 2]"
  "spec_variance range_ops [Fin 1, Fin 3] = Fin 1"
  "spec_variance range_ops [Fin 2, Fin 6] = Fin 4"
  "spec_covariance range_ops [(Fin 1, Fin 2), (Fin 3, Fin 6)] = Fin 2"
proof -
  show m1: "spec_mean range_ops [Fin 1, Fin 3] = Fin 2"
    by (simp add: spec_mean_def range_small)
  show m2: "spec_mean range_ops [Fin 2, Fin 6] = Fin 4"
    by (simp add: spec_mean_def range_small)
  show s1: "squared_deviations range_ops [Fin 1, Fin 3] = [Fin 1, Fin 1]"
    by (simp add: squared_deviations_def m1 range_small)
  show s2: "squared_deviations range_ops [Fin 2, Fin 6] = [Fin 4, Fin 4]"
    by (simp add: squared_deviations_def m2 range_small)
  show p: "deviation_products range_ops [(Fin 1, Fin 2), (Fin 3, Fin 6)] = [Fin 2, Fin 2]"
    by (simp add: deviation_products_def m1 m2 range_small)
  show "spec_variance range_ops [Fin 1, Fin 3] = Fin 1"
    unfolding spec_variance_def s1 by (simp add: spec_mean_def range_small)
  show "spec_variance range_ops [Fin 2, Fin 6] = Fin 4"
    unfolding spec_variance_def s2 by (simp add: spec_mean_def range_small)
  show "spec_covariance range_ops [(Fin 1, Fin 2), (Fin 3, Fin 6)] = Fin 2"
    unfolding spec_covariance_def p by (simp add: spec_mean_def range_small)
qed

theorem renderScatter_fit_witness:
  "finite_samples scatter_line = [(Fin 1, Fin 2), (Fin 3, Fin 6)]
   \<and> NaN \<notin> set (squared_deviations range_ops (map fst (finite_samples scatter_line)))
   \<and> NaN \<notin> set (squared_deviations range_ops (map snd (finite_samples scatter_line)))
   \<and> NaN \<notin> set (deviation_products range_ops (finite_samples scatter_line))
   \<and> map_option slope (renderScatter range_ops scatter_line) = Some (Fin 2)
   \<and> map_option intercept (renderScatter range_ops scatter_line) = Some (Fin 0)
   \<and> map_option pearson_r (renderScatter range_ops scatter_line) = Some (Fin 1)
   \<and> renderScatter range_ops [\<lparr> point_state = ''C'', px = NaN, py = Fin 1 \<rparr>] = None"
proof -
  note T = renderScatter_fit[of range_ops scatter_line]
  have "\<exists>d\<in>set scatter_line. isFinite (px d) \<and> isFinite (py d)"
    by (simp add: scatter_line_def)
  with T obtain m where m: "renderScatter range_ops scatter_line = Some m" by auto
  have sx: "NaN \<notin> set (squared_deviations range_ops (map fst (finite_samples scatter_line)))"
    by (simp add: scatter_line_samples scatter_line_stats)
  have sy: "NaN \<notin> set (squared_deviations range_ops (map snd (finite_samples scatter_line)))"
    by (simp add: scatter_line_samples scatter_line_stats)
  have sp: "NaN \<notin> set (deviation_products range_ops (finite_samples scatter_line))"
    by (simp add: scatter_line_samples scatter_line_stats)
  from T m sx sy sp have
    sl: "slope m = (if spec_variance range_ops (map fst (finite_samples scatter_line)) = Fin 0
                    then Fin 0
                    else f_div range_ops (spec_covariance range_ops (finite_samples scatter_line))
                           (spec_variance range_ops (map fst (finite_samples scatter_line))))"
    and ic: "intercept m = f_sub range_ops (spec_mean range_ops (map snd (finite_samples scatter_line)))
               (f_mul range_ops (slope m) (spec_mean range_ops (map fst (finite_samples scatter_line))))"
    and pr: "pearson_r m =
            (if spec_variance range_ops (map fst (finite_samples scatter_line)) = Fin 0
                \<or> spec_variance range_ops (map snd (finite_samples scatter_line)) = Fin 0
             then Fin 0
             else f_div range_ops (spec_covariance range_ops (finite_samples scatter_line))
                    (f_sqrt range_ops
                       (f_mul range_ops
                          (spec_variance range_ops (map fst (finite_samples scatter_line)))
                          (spec_variance range_ops (map snd (finite_samples scatter_line))))))"
    by blast+
  have s2: "slope m = Fin 2"
    using sl by (simp add: scatter_line_samples scatter_line_stats range_small)
  have i0: "intercept m = Fin 0"
    using ic s2 by (simp add: scatter_line_samples scatter_line_stats range_small)
  have r1: "pearson_r m = Fin 1"
    using pr by (simp add: scatter_line_samples scatter_line_stats range_small)
  have none: "renderScatter range_ops [\<lparr> point_state = ''C'', px = NaN, py = Fin 1 \<rparr>] = None"
    using renderScatter_fit[of range_ops "[\<lparr> point_state = ''C'', px = NaN, py = Fin 1 \<rparr>]"]
    by simp
  show ?thesis using m s2 i0 r1 sx sy sp none scatter_line_samples by simp
qed

lemma overflow_huge: "overflow (Fin huge) = Fin huge"
  by (simp add: overflow_def huge_def)

lemma overflow_sum: "overflow (Fin (2 * huge)) = PosInf"
  unfolding overflow_def huge_def by simp

lemma overflow_infinite:
  "overflow PosInf = PosInf" "overflow NegInf = NegInf" "overflow NaN = NaN"
  by (simp_all add: overflow_def)

lemma scatter_overflow_samples:
  "finite_samples scatter_overflow = [(Fin huge, Fin 1), (Fin huge, Fin 1)]"
  by (simp add: finite_samples_def scatter_overflow_def)

lemma range_overflow:
  "f_add range_ops (Fin 0) (Fin huge) = Fin huge"
  "f_add range_ops (Fin huge) (Fin huge) = PosInf"
  "f_div range_ops PosInf (Fin 2) = PosInf"
  "f_sub range_ops (Fin huge) PosInf = NegInf"
  "f_pow range_ops NegInf (Fin 2) = PosInf"
  "f_add range_ops (Fin 0) PosInf = PosInf"
  "f_add range_ops PosInf PosInf = PosInf"
  "f_sub range_ops (Fin 1) (Fin 1) = Fin 0"
  "f_pow range_ops (Fin 0) (Fin 2) = Fin 0"
  "f_add range_ops (Fin 0) (Fin 0) = Fin 0"
  "f_div range_ops (Fin 0) (Fin 2) = Fin 0"
  "f_mul range_ops NegInf (Fin 0) = NaN"
  "f_add range_ops (Fin 0) NaN = NaN"
  "f_add range_ops NaN NaN = NaN"
  "f_div range_ops NaN (Fin 2) = NaN"
  "f_div range_ops (Fin 0) PosInf = Fin 0"
  "f_div range_ops NaN PosInf = NaN"
  "f_mul range_ops (Fin 0) PosInf = NaN"
  "f_sub range_ops (Fin 1) NaN = NaN"
  by (simp_all add: range_ops_def js_pow_def odd_integer_def overflow_small small_numbers
      overflow_huge overflow_sum overflow_infinite)

lemma scatter_overflow_stats:
  "spec_mean range_ops [Fin huge, Fin huge] = PosInf"
  "spec_mean range_ops [Fin 1, Fin 1] = Fin 1"
  "squared_deviations range_ops [Fin huge, Fin huge] = [PosInf, PosInf]"
  "squared_deviations range_ops [Fin 1, Fin 1] = [Fin 0, Fin 0]"
  "deviation_products range_ops [(Fin huge, Fin 1), (Fin huge, Fin 1)] = [NaN, NaN]"
proof -
  show m1: "spec_mean range_ops [Fin huge, Fin huge] = PosInf"
    by (simp add: spec_mean_def range_overflow)
  show m2: "spec_mean range_ops [Fin 1, Fin 1] = Fin 1"
    by (simp add: spec_mean_def range_small)
  show "squared_deviations range_ops [Fin huge, Fin huge] = [PosInf, PosInf]"
    by (simp add: squared_deviations_def m1 range_overflow)
  show "squared_deviations range_ops [Fin 1, Fin 1] = [Fin 0, Fin 0]"
    by (simp add: squared_deviations_def m2 range_overflow)
  show "deviation_products range_ops [(Fin huge, Fin 1), (Fin huge, Fin 1)]
          = [NaN, NaN]"
    by (simp add: deviation_products_def m1 m2 range_overflow)
qed

lemma scatter_overflow_code:
  "orZero (d3_mean range_ops [Fin huge, Fin huge]) = PosInf"
  "orZero (d3_mean range_ops [Fin 1, Fin 1]) = Fin 1"
  "orZero (d3_mean range_ops [PosInf, PosInf]) = PosInf"
  "orZero (d3_mean range_ops [Fin 0, Fin 0]) = Fin 0"
  "orZero (d3_mean range_ops [NaN, NaN]) = Fin 0"
  by (simp_all add: d3_mean_def orZero_def Let_def range_overflow range_small)

lemma regression_overflow:
  "slope (regression range_ops scatter_overflow) = Fin 0"
  "intercept (regression range_ops scatter_overflow) = NaN"
  "pearson_r (regression range_ops scatter_overflow) = Fin 0"
  by (simp_all add: regression_def Let_def scatter_overflow_def scatter_overflow_code
      range_overflow)

text \<open>
  The two samples of \<open>scatter_overflow\<close> are finite. The sum of their \<open>x\<close> overflows, so the
  mean of \<open>x\<close> and the variance of \<open>x\<close> are infinite and both products of deviations are NaN,
  as is their mean, dividing by 2. The run skips the NaN products and takes the covariance to
  be 0: it returns the slope 0, where covariance / variance(x) is NaN, and the intercept NaN.
\<close>

theorem renderScatter_overflow:
  "list_all (\<lambda>d. isFinite (px d) \<and> isFinite (py d)) scatter_overflow
   \<and> map_option slope (renderScatter range_ops scatter_overflow) = Some (Fin 0)
   \<and> map_option intercept (renderScatter range_ops scatter_overflow) = Some NaN
   \<and> map_option pearson_r (renderScatter range_ops scatter_overflow) = Some (Fin 0)
   \<and> spec_mean range_ops (map fst (finite_samples scatter_overflow)) = PosInf
   \<and> spec_mean range_ops (map snd (finite_samples scatter_overflow)) = Fin 1
   \<and> spec_variance range_ops (map fst (finite_samples scatter_overflow)) = PosInf
   \<and> spec_variance range_ops (map snd (finite_samples scatter_overflow)) = Fin 0
   \<and> spec_covariance range_ops (finite_samples scatter_overflow) = NaN
   \<and> f_div range_ops (spec_covariance range_ops (finite_samples scatter_overflow))
        (spec_variance range_ops (map fst (finite_samples scatter_overflow))) = NaN"
proof -
  have fin: "list_all (\<lambda>d. isFinite (px d) \<and> isFinite (py d)) scatter_overflow"
    by (simp add: scatter_overflow_def)
  then have valid: "filter (\<lambda>d. isFinite (px d) \<and> isFinite (py d)) scatter_overflow
                      = scatter_overflow"
    by (simp add: list_all_iff)
  have run: "renderScatter range_ops scatter_overflow
               = Some (regression range_ops scatter_overflow)"
    unfolding renderScatter_def Let_def valid by (simp add: scatter_overflow_def)
  have vx: "spec_variance range_ops [Fin huge, Fin huge] = PosInf"
    unfolding spec_variance_def scatter_overflow_stats
    by (simp add: spec_mean_def range_overflow)
  have vy: "spec_variance range_ops [Fin 1, Fin 1] = Fin 0"
    unfolding spec_variance_def scatter_overflow_stats
    by (simp add: spec_mean_def range_overflow)
  have cv: "spec_covariance range_ops [(Fin huge, Fin 1), (Fin huge, Fin 1)] = NaN"
    unfolding spec_covariance_def scatter_overflow_stats
    by (simp add: spec_mean_def range_overflow)
  show ?thesis
    unfolding run scatter_overflow_samples
    using fin by (simp add: regression_overflow scatter_overflow_stats vx vy cv range_overflow)
qed

section \<open>Correlation search: what is recorded and what is returned\<close>

lemma mset_insert_js: "mset (insert_js cmp v ws) = add_mset v (mset ws)"
  by (induction ws) simp_all

lemma mset_sort_js: "mset (sort_js cmp vs) = mset vs"
  by (induction vs) (simp_all add: mset_insert_js)

lemma map_filter_all_Some:
  "(\<And>p. p \<in> set ps \<Longrightarrow> f p \<noteq> None) \<Longrightarrow> length (List.map_filter f ps) = length ps"
  by (simp add: List.map_filter_def)

lemma comboPoints_finite:
  "p \<in> set (comboPoints S J x y) \<Longrightarrow> finitePoint p \<noteq> None"
  by (auto simp add: comboPoints_def List.map_filter_def finitePoint_def split: option.splits)

lemma computeScatter_comboPoints:
  assumes "6 \<le> length (comboPoints S J x y)"
  shows "computeScatter (comboPoints S J x y)
           = Some (spec_fit (List.map_filter finitePoint (comboPoints S J x y)))"
proof -
  have "length (List.map_filter finitePoint (comboPoints S J x y)) = length (comboPoints S J x y)"
    by (rule map_filter_all_Some) (rule comboPoints_finite)
  with assms have "0 < length (List.map_filter finitePoint (comboPoints S J x y))" by linarith
  then have "List.map_filter finitePoint (comboPoints S J x y) \<noteq> []" by simp
  then show ?thesis by (simp add: computeScatter_def Let_def)
qed

lemma comboFor_eq:
  "comboFor S J x y =
     (if length (comboPoints S J x y) < 6 then []
      else [\<lparr> combo_cuisine = x, combo_cancer = y,
              combo_r = pearson_r (spec_fit (List.map_filter finitePoint (comboPoints S J x y))),
              combo_sample = length (comboPoints S J x y) \<rparr>])"
  using computeScatter_comboPoints[of S J x y] by (simp add: comboFor_def Let_def)

lemma in_surveyCombos:
  "c \<in> set (surveyCombos I S J) \<longleftrightarrow>
     (\<exists>x\<in>set (cuisineCandidatesOf I). \<exists>y\<in>set cancerMetrics. c \<in> set (comboFor S J x y))"
  by (auto simp add: surveyCombos_def)

lemma abs_r_total:
  "\<bar>combo_r b\<bar> - \<bar>combo_r a\<bar> \<le> 0 \<or> \<bar>combo_r a\<bar> - \<bar>combo_r b\<bar> \<le> (0::real)"
  by linarith

lemma abs_r_trans:
  "\<bar>combo_r b\<bar> - \<bar>combo_r a\<bar> \<le> 0 \<Longrightarrow> \<bar>combo_r c\<bar> - \<bar>combo_r b\<bar> \<le> 0
     \<Longrightarrow> \<bar>combo_r c\<bar> - \<bar>combo_r a\<bar> \<le> (0::real)"
  by linarith

lemma length_computeInterestingCombos:
  "length (computeInterestingCombos I S J) = min 18 (length (surveyCombos I S J))"
  by (simp add: computeInterestingCombos_def length_sort_js min.commute)

text \<open>
  C8. For every pair of a candidate cuisine metric and a cancer metric the search builds the
  paired points from the joined records and skips the pair when there are fewer than 6;
  otherwise the fit succeeds and the pair is recorded with its signed \<open>r\<close> and its sample
  size. The recorded pairs are sorted by descending \<open>|r|\<close> and the function itself returns
  only the first 18 of them: its result is an initial segment of a descending arrangement of
  all recorded pairs, of length the smaller of 18 and their number.
\<close>

theorem combos_top_slice:
  "(c \<in> set (surveyCombos I S J) \<longleftrightarrow>
      (\<exists>x\<in>set (cuisineCandidatesOf I). \<exists>y\<in>set cancerMetrics.
         6 \<le> length (comboPoints S J x y)
         \<and> (\<exists>m. computeScatter (comboPoints S J x y) = Some m
              \<and> c = \<lparr> combo_cuisine = x, combo_cancer = y, combo_r = pearson_r m,
                       combo_sample = length (comboPoints S J x y) \<rparr>)))
   \<and> (\<exists>rest. mset (computeInterestingCombos I S J @ rest) = mset (surveyCombos I S J)
        \<and> sorted_wrt (\<lambda>a b. \<bar>combo_r b\<bar> \<le> \<bar>combo_r a\<bar>) (computeInterestingCombos I S J @ rest))
   \<and> length (computeInterestingCombos I S J) = min 18 (length (surveyCombos I S J))"
proof -
  have a: "c \<in> set (surveyCombos I S J) \<longleftrightarrow>
      (\<exists>x\<in>set (cuisineCandidatesOf I). \<exists>y\<in>set cancerMetrics.
         6 \<le> length (comboPoints S J x y)
         \<and> (\<exists>m. computeScatter (comboPoints S J x y) = Some m
              \<and> c = \<lparr> combo_cuisine = x, combo_cancer = y, combo_r = pearson_r m,
                       combo_sample = length (comboPoints S J x y) \<rparr>))"
  proof -
    have "c \<in> set (comboFor S J x y) \<longleftrightarrow>
         6 \<le> length (comboPoints S J x y)
         \<and> (\<exists>m. computeScatter (comboPoints S J x y) = Some m
              \<and> c = \<lparr> combo_cuisine = x, combo_cancer = y, combo_r = pearson_r m,
                       combo_sample = length (comboPoints S J x y) \<rparr>)" for x y
      using computeScatter_comboPoints[of S J x y] by (auto simp add: comboFor_eq)
    then show ?thesis unfolding in_surveyCombos by simp
  qed
  define sorted where
    "sorted = sort_js (\<lambda>a b. \<bar>combo_r b\<bar> - \<bar>combo_r a\<bar>) (surveyCombos I S J)"
  have out: "computeInterestingCombos I S J = take 18 sorted"
    by (simp add: computeInterestingCombos_def sorted_def)
  have s: "sorted_wrt (\<lambda>a b. \<bar>combo_r b\<bar> - \<bar>combo_r a\<bar> \<le> 0) sorted"
    unfolding sorted_def by (rule sorted_sort_js) (rule abs_r_total, rule abs_r_trans)
  have "mset (computeInterestingCombos I S J @ drop 18 sorted) = mset (surveyCombos I S J)"
    unfolding out by (simp add: sorted_def mset_sort_js)
  moreover have "sorted_wrt (\<lambda>a b. \<bar>combo_r b\<bar> \<le> \<bar>combo_r a\<bar>) (computeInterestingCombos I S J @ drop 18 sorted)"
    unfolding out using s by simp
  ultimately have b: "\<exists>rest. mset (computeInterestingCombos I S J @ rest) = mset (surveyCombos I S J)
        \<and> sorted_wrt (\<lambda>a b. \<bar>combo_r b\<bar> \<le> \<bar>combo_r a\<bar>) (computeInterestingCombos I S J @ rest)"
    by blast
  have c: "length (computeInterestingCombos I S J) = min 18 (length (surveyCombos I S J))"
    by (rule length_computeInterestingCombos)
  from a b c show ?thesis by blast
qed

lemma comboPoints_all:
  assumes "\<And>e. e \<in> set J \<Longrightarrow> getCuisineValue S (joined_cuisine e) x \<noteq> None
                              \<and> getCancerValue (joined_cancer e) y \<noteq> None"
  shows "length (comboPoints S J x y) = length J"
  unfolding comboPoints_def
proof (rule map_filter_all_Some)
  fix e assume "e \<in> set J"
  from assms[OF this] obtain a b
    where "getCuisineValue S (joined_cuisine e) x = Some a"
      and "getCancerValue (joined_cancer e) y = Some b" by auto
  then show "(case (getCuisineValue S (joined_cuisine e) x, getCancerValue (joined_cancer e) y) of
            (Some cuisineValue, Some cancerValue) \<Rightarrow>
              Some \<lparr> point_state = joined_state e, px = Fin cuisineValue, py = Fin cancerValue \<rparr>
          | _ \<Rightarrow> None) \<noteq> None" by simp
qed

lemma cuisine_sample_field: "cuisineField (cuisine_sample s) k \<noteq> None"
  by (cases k) (simp_all add: cuisine_sample_def)

lemma cancer_sample_field: "cancerField (cancer_sample s) k \<noteq> None"
  by (cases k) (simp_all add: cancer_sample_def)

lemma joined_six_points: "length (comboPoints S joined_six (Preset k) y) = 6"
proof -
  have "length (comboPoints S joined_six (Preset k) y) = length joined_six"
    using cuisine_sample_field cancer_sample_field
    by (intro comboPoints_all)
      (auto simp add: joined_six_def getCuisineValue_def getCancerValue_def)
  then show ?thesis by (simp add: joined_six_def)
qed

lemma length_concat_const:
  "(\<And>v. v \<in> set vs \<Longrightarrow> length (f v) = n) \<Longrightarrow> length (concat (map f vs)) = n * length vs"
  by (induction vs) simp_all

lemma joined_six_survey: "length (surveyCombos [] S joined_six) = 90"
proof -
  have one: "length (comboFor S joined_six (Preset k) y) = 1" for k y
    by (simp add: comboFor_eq joined_six_points)
  have inner: "length (concat (map (\<lambda>y. comboFor S joined_six x y) cancerMetrics)) = 9"
    if "x \<in> set (map Preset cuisineMetrics)" for x
  proof -
    from that obtain k where x: "x = Preset k" by auto
    have "length (concat (map (\<lambda>y. comboFor S joined_six x y) cancerMetrics))
            = 1 * length cancerMetrics"
      by (rule length_concat_const) (simp add: x one)
    then show ?thesis by (simp add: cancerMetrics_def)
  qed
  have cands: "cuisineCandidatesOf [] = map Preset cuisineMetrics"
    by (simp add: cuisineCandidatesOf_def)
  have "length (surveyCombos [] S joined_six) = 9 * length (map Preset cuisineMetrics)"
    unfolding surveyCombos_def cands
    by (rule length_concat_const) (rule inner)
  then show ?thesis by (simp add: cuisineMetrics_def)
qed

text \<open>
  With six joined records in which every metric has a value, all 90 pairs of a preset
  cuisine metric and a cancer metric have 6 points and are recorded, and the function
  returns 18 of them.
\<close>

theorem combos_truncated_to_18:
  "length (comboPoints (\<lambda>s. Some Map.empty) joined_six (Preset K_dish_count) K_incidence_cagr_19_22) = 6
   \<and> length (surveyCombos [] (\<lambda>s. Some Map.empty) joined_six) = 90
   \<and> length (computeInterestingCombos [] (\<lambda>s. Some Map.empty) joined_six) = 18"
  by (simp add: joined_six_points joined_six_survey length_computeInterestingCombos)

lemma veg_points:
  "comboPoints S joined_six (Preset K_pct_veg) K_incidence_2022 =
     map (\<lambda>s. \<lparr> point_state = s, px = Fin (1 / 2), py = Fin 100 \<rparr>)
       [''Assam'', ''Bihar'', ''Goa'', ''Kerala'', ''Punjab'', ''Sikkim'']"
  by (simp add: comboPoints_def joined_six_def getCuisineValue_def getCancerValue_def
      cuisine_sample_def cancer_sample_def)

lemma veg_fit:
  "\<exists>m. computeScatter (comboPoints S joined_six (Preset K_pct_veg) K_incidence_2022) = Some m
       \<and> pearson_r m = 0"
  unfolding veg_points
  by (simp add: computeScatter_def finitePoint_def spec_fit_def mean_of_def Let_def)

theorem combos_top_slice_witness:
  "Preset K_pct_veg \<in> set (cuisineCandidatesOf [])
   \<and> K_incidence_2022 \<in> set cancerMetrics
   \<and> length (comboPoints (\<lambda>s. Some Map.empty) joined_six (Preset K_pct_veg) K_incidence_2022) = 6
   \<and> \<lparr> combo_cuisine = Preset K_pct_veg, combo_cancer = K_incidence_2022, combo_r = 0,
        combo_sample = 6 \<rparr> \<in> set (surveyCombos [] (\<lambda>s. Some Map.empty) joined_six)
   \<and> length (computeInterestingCombos [] (\<lambda>s. Some Map.empty) joined_six) = 18"
proof -
  have x: "Preset K_pct_veg \<in> set (cuisineCandidatesOf [])"
    by (simp add: cuisineCandidatesOf_def cuisineMetrics_def)
  have y: "K_incidence_2022 \<in> set cancerMetrics" by (simp add: cancerMetrics_def)
  have n: "length (comboPoints (\<lambda>s. Some Map.empty) joined_six (Preset K_pct_veg) K_incidence_2022) = 6"
    by (rule joined_six_points)
  note T = combos_top_slice[of "\<lparr> combo_cuisine = Preset K_pct_veg, combo_cancer = K_incidence_2022,
      combo_r = 0, combo_sample = 6 \<rparr>" "[]" "\<lambda>s. Some Map.empty" joined_six]
  have "\<exists>x\<in>set (cuisineCandidatesOf []). \<exists>y\<in>set cancerMetrics.
         6 \<le> length (comboPoints (\<lambda>s. Some Map.empty) joined_six x y)
         \<and> (\<exists>m. computeScatter (comboPoints (\<lambda>s. Some Map.empty) joined_six x y) = Some m
              \<and> \<lparr> combo_cuisine = Preset K_pct_veg, combo_cancer = K_incidence_2022,
                   combo_r = 0, combo_sample = 6 \<rparr>
                = \<lparr> combo_cuisine = x, combo_cancer = y, combo_r = pearson_r m,
                    combo_sample = length (comboPoints (\<lambda>s. Some Map.empty) joined_six x y) \<rparr>)"
    using veg_fit n by (intro bexI[OF _ x] bexI[OF _ y]) auto
  with T have m: "\<lparr> combo_cuisine = Preset K_pct_veg, combo_cancer = K_incidence_2022, combo_r = 0,
        combo_sample = 6 \<rparr> \<in> set (surveyCombos [] (\<lambda>s. Some Map.empty) joined_six)" by blast
  from T have "length (computeInterestingCombos [] (\<lambda>s. Some Map.empty) joined_six)
      = min 18 (length (surveyCombos [] (\<lambda>s. Some Map.empty) joined_six))" by blast
  then have l: "length (computeInterestingCombos [] (\<lambda>s. Some Map.empty) joined_six) = 18"
    by (simp add: joined_six_survey)
  show ?thesis by (intro conjI x y n m l)
qed

end
